theory Spec2Isabelle
  imports Main "HOL-Library.Word" "HOL-Library.Sublist"
begin

unbundle bit_operations_syntax

chapter \<open>PasteBro: clipboard items, history store, history manager and image storage\<close>

text \<open>
  A shallow embedding of \<^verbatim>\<open>clipboardItem.js\<close>, \<^verbatim>\<open>database.js\<close>,
  \<^verbatim>\<open>historyManager.js\<close> and \<^verbatim>\<open>imageStorageManager.js\<close>.
  JavaScript strings and Buffers are modelled as lists of 8-bit characters,
  \<^verbatim>\<open>null\<close>/\<^verbatim>\<open>undefined\<close> as \<open>None\<close>, numbers as \<open>int\<close>.
  The clock (\<^verbatim>\<open>Date.now()\<close>) and the random id source
  (\<^verbatim>\<open>crypto.randomUUID()\<close>) are explicit arguments.
\<close>

section \<open>JavaScript built-ins used by the sources\<close>

subsection \<open>JSON.stringify and JSON.parse on arrays of strings\<close>

abbreviation DQ :: char where "DQ \<equiv> CHR 0x22"
abbreviation BSL :: char where "BSL \<equiv> CHR 0x5C"

definition hex_digit :: "nat \<Rightarrow> char" where
  "hex_digit n = ''0123456789abcdef'' ! (n mod 16)"

text \<open>QuoteJSONString: the escapes JSON.stringify applies to one code unit.\<close>

definition json_escape :: "char \<Rightarrow> string" where
  "json_escape c =
     (if c = DQ then [BSL, DQ]
      else if c = BSL then [BSL, BSL]
      else if c = CHR 0x08 then [BSL, CHR ''b'']
      else if c = CHR 0x0C then [BSL, CHR ''f'']
      else if c = CHR 0x0A then [BSL, CHR ''n'']
      else if c = CHR 0x0D then [BSL, CHR ''r'']
      else if c = CHR 0x09 then [BSL, CHR ''t'']
      else if (of_char c :: nat) < 32
        then [BSL, CHR ''u'', CHR ''0'', CHR ''0'',
              hex_digit (of_char c div 16), hex_digit (of_char c mod 16)]
      else [c])"

definition quoteJSONString :: "string \<Rightarrow> string" where
  "quoteJSONString s = DQ # concat (map json_escape s) @ [DQ]"

fun join_comma :: "string list \<Rightarrow> string" where
  "join_comma [] = []"
| "join_comma [x] = x"
| "join_comma (x # y # ys) = x @ CHR '','' # join_comma (y # ys)"

definition JSON_stringify :: "string list \<Rightarrow> string" where
  "JSON_stringify xs = CHR ''['' # join_comma (map quoteJSONString xs) @ [CHR '']'']"

definition json_unescape :: "char \<Rightarrow> char option" where
  "json_unescape e =
     (if e = DQ then Some DQ
      else if e = BSL then Some BSL
      else if e = CHR ''/'' then Some (CHR ''/'')
      else if e = CHR ''b'' then Some (CHR 0x08)
      else if e = CHR ''f'' then Some (CHR 0x0C)
      else if e = CHR ''n'' then Some (CHR 0x0A)
      else if e = CHR ''r'' then Some (CHR 0x0D)
      else if e = CHR ''t'' then Some (CHR 0x09)
      else None)"

definition hex_value :: "char \<Rightarrow> nat option" where
  "hex_value c =
     (let n = (of_char c :: nat) in
      if 48 \<le> n \<and> n \<le> 57 then Some (n - 48)
      else if 97 \<le> n \<and> n \<le> 102 then Some (n - 87)
      else if 65 \<le> n \<and> n \<le> 70 then Some (n - 55)
      else None)"

text \<open>
  A \<^verbatim>\<open>\uXXXX\<close> escape denotes one code unit. Code units are 8 bits wide in this
  model, so an escape above code unit 255 has no value here (\<open>None\<close>).
\<close>

definition hex4 :: "char \<Rightarrow> char \<Rightarrow> char \<Rightarrow> char \<Rightarrow> char option" where
  "hex4 h1 h2 h3 h4 =
     (case hex_value h1 of None \<Rightarrow> None | Some a \<Rightarrow>
      case hex_value h2 of None \<Rightarrow> None | Some b \<Rightarrow>
      case hex_value h3 of None \<Rightarrow> None | Some c \<Rightarrow>
      case hex_value h4 of None \<Rightarrow> None | Some d \<Rightarrow>
        (if a = 0 \<and> b = 0 then Some (char_of (c * 16 + d)) else None))"

definition is_ws :: "char \<Rightarrow> bool" where
  "is_ws c \<longleftrightarrow> c = CHR '' '' \<or> c = CHR 0x09 \<or> c = CHR 0x0A \<or> c = CHR 0x0D"

text \<open>
  JSON.parse, for the texts that denote an array of strings: a left-to-right scanner.
  \<open>None\<close> stands for the SyntaxError the built-in throws, and for a JSON value that is
  not an array of strings.
\<close>

datatype parse_state = PStart | PFirst | PValue | PString string | PAfter | PEnd

fun json_run :: "parse_state \<Rightarrow> string list \<Rightarrow> string \<Rightarrow> string list option" where
  "json_run PEnd acc [] = Some (rev acc)"
| "json_run st acc [] = None"
| "json_run PStart acc (c # cs) =
     (if is_ws c then json_run PStart acc cs
      else if c = CHR ''['' then json_run PFirst acc cs
      else None)"
| "json_run PFirst acc (c # cs) =
     (if is_ws c then json_run PFirst acc cs
      else if c = CHR '']'' then json_run PEnd acc cs
      else if c = DQ then json_run (PString []) acc cs
      else None)"
| "json_run PValue acc (c # cs) =
     (if is_ws c then json_run PValue acc cs
      else if c = DQ then json_run (PString []) acc cs
      else None)"
| "json_run (PString s) acc (c # cs) =
     (if c = DQ then json_run PAfter (rev s # acc) cs
      else if c = BSL then
        (case cs of
           [] \<Rightarrow> None
         | e # cs' \<Rightarrow>
             if e = CHR ''u'' then
               (case cs' of
                  h1 # h2 # h3 # h4 # cs'' \<Rightarrow>
                    (case hex4 h1 h2 h3 h4 of
                       None \<Rightarrow> None
                     | Some d \<Rightarrow> json_run (PString (d # s)) acc cs'')
                | _ \<Rightarrow> None)
             else
               (case json_unescape e of
                  None \<Rightarrow> None
                | Some d \<Rightarrow> json_run (PString (d # s)) acc cs'))
      else if (of_char c :: nat) < 32 then None
      else json_run (PString (c # s)) acc cs)"
| "json_run PAfter acc (c # cs) =
     (if is_ws c then json_run PAfter acc cs
      else if c = CHR '','' then json_run PValue acc cs
      else if c = CHR '']'' then json_run PEnd acc cs
      else None)"
| "json_run PEnd acc (c # cs) = (if is_ws c then json_run PEnd acc cs else None)"

definition JSON_parse :: "string \<Rightarrow> string list option" where
  "JSON_parse s = json_run PStart [] s"

subsection \<open>crypto.createHash('sha256'): SHA-256 (FIPS 180-4), hex digest\<close>

text \<open>The definitions avoid \<open>let\<close> and \<open>case\<close> on tuples, so that the simplifier
  evaluates a digest from the inside out on numerals.\<close>

text \<open>32-bit words are integers below \<open>2 ^ 32\<close>; every operation reduces its result.\<close>

definition add32 :: "int \<Rightarrow> int \<Rightarrow> int" where
  "add32 a b = (a + b) mod 4294967296"

definition rotr :: "nat \<Rightarrow> int \<Rightarrow> int" where
  "rotr n x = x div 2 ^ n + (x mod 2 ^ n) * 2 ^ (32 - n)"

definition shr :: "nat \<Rightarrow> int \<Rightarrow> int" where
  "shr n x = x div 2 ^ n"

definition K256 :: "int list" where
  "K256 = [
  0x428A2F98, 0x71374491, 0xB5C0FBCF, 0xE9B5DBA5, 0x3956C25B, 0x59F111F1, 0x923F82A4, 0xAB1C5ED5,
  0xD807AA98, 0x12835B01, 0x243185BE, 0x550C7DC3, 0x72BE5D74, 0x80DEB1FE, 0x9BDC06A7, 0xC19BF174,
  0xE49B69C1, 0xEFBE4786, 0x0FC19DC6, 0x240CA1CC, 0x2DE92C6F, 0x4A7484AA, 0x5CB0A9DC, 0x76F988DA,
  0x983E5152, 0xA831C66D, 0xB00327C8, 0xBF597FC7, 0xC6E00BF3, 0xD5A79147, 0x06CA6351, 0x14292967,
  0x27B70A85, 0x2E1B2138, 0x4D2C6DFC, 0x53380D13, 0x650A7354, 0x766A0ABB, 0x81C2C92E, 0x92722C85,
  0xA2BFE8A1, 0xA81A664B, 0xC24B8B70, 0xC76C51A3, 0xD192E819, 0xD6990624, 0xF40E3585, 0x106AA070,
  0x19A4C116, 0x1E376C08, 0x2748774C, 0x34B0BCB5, 0x391C0CB3, 0x4ED8AA4A, 0x5B9CCA4F, 0x682E6FF3,
  0x748F82EE, 0x78A5636F, 0x84C87814, 0x8CC70208, 0x90BEFFFA, 0xA4506CEB, 0xBEF9A3F7, 0xC67178F2]"

type_synonym sha_state = "int \<times> int \<times> int \<times> int \<times> int \<times> int \<times> int \<times> int"

definition H0 :: sha_state where
  "H0 = (0x6A09E667, 0xBB67AE85, 0x3C6EF372, 0xA54FF53A, 0x510E527F, 0x9B05688C, 0x1F83D9AB, 0x5BE0CD19)"

definition Ch :: "int \<Rightarrow> int \<Rightarrow> int \<Rightarrow> int" where
  "Ch x y z = (x AND y) XOR ((4294967295 - x) AND z)"

definition Maj :: "int \<Rightarrow> int \<Rightarrow> int \<Rightarrow> int" where
  "Maj x y z = (x AND y) XOR (x AND z) XOR (y AND z)"

definition bsig0 :: "int \<Rightarrow> int" where
  "bsig0 x = rotr 2 x XOR rotr 13 x XOR rotr 22 x"

definition bsig1 :: "int \<Rightarrow> int" where
  "bsig1 x = rotr 6 x XOR rotr 11 x XOR rotr 25 x"

definition ssig0 :: "int \<Rightarrow> int" where
  "ssig0 x = rotr 7 x XOR rotr 18 x XOR shr 3 x"

definition ssig1 :: "int \<Rightarrow> int" where
  "ssig1 x = rotr 17 x XOR rotr 19 x XOR shr 10 x"

definition sched_word :: "int \<Rightarrow> int \<Rightarrow> int \<Rightarrow> int \<Rightarrow> int" where
  "sched_word w2 w7 w15 w16 = add32 (add32 (ssig1 w2) w7) (add32 (ssig0 w15) w16)"

text \<open>The message schedule, most recent word first.\<close>

fun extend_schedule :: "nat \<Rightarrow> int list \<Rightarrow> int list" where
  "extend_schedule 0 rw = rw"
| "extend_schedule (Suc n) rw = extend_schedule n (sched_word (rw ! 1) (rw ! 6) (rw ! 14) (rw ! 15) # rw)"

definition schedule :: "int list \<Rightarrow> int list" where
  "schedule blk = rev (extend_schedule 48 (rev blk))"

definition T1 :: "int \<Rightarrow> int \<Rightarrow> int \<Rightarrow> int \<Rightarrow> int \<Rightarrow> int \<Rightarrow> int" where
  "T1 h e f g k w = add32 (add32 (add32 h (bsig1 e)) (add32 (Ch e f g) k)) w"

definition T2 :: "int \<Rightarrow> int \<Rightarrow> int \<Rightarrow> int" where
  "T2 a b c = add32 (bsig0 a) (Maj a b c)"

fun round_out :: "sha_state \<Rightarrow> int \<Rightarrow> int \<Rightarrow> sha_state" where
  "round_out (a, b, c, d, e, f, g, h) t1 t2 = (add32 t1 t2, a, b, c, add32 d t1, e, f, g)"

fun round256 :: "sha_state \<Rightarrow> (int \<times> int) \<Rightarrow> sha_state" where
  "round256 (a, b, c, d, e, f, g, h) (k, w) =
     round_out (a, b, c, d, e, f, g, h) (T1 h e f g k w) (T2 a b c)"

fun add_state :: "sha_state \<Rightarrow> sha_state \<Rightarrow> sha_state" where
  "add_state (a, b, c, d, e, f, g, h) (a', b', c', d', e', f', g', h') =
     (add32 a a', add32 b b', add32 c c', add32 d d', add32 e e', add32 f f', add32 g g', add32 h h')"

definition compress :: "sha_state \<Rightarrow> int list \<Rightarrow> sha_state" where
  "compress hs blk = add_state hs (foldl round256 hs (zip K256 (schedule blk)))"

text \<open>Padding: the message bytes, 0x80, zero bytes up to 56 modulo 64, and the bit
  length as 64-bit big-endian.\<close>

definition be64 :: "int \<Rightarrow> int list" where
  "be64 b = [b div 72057594037927936 mod 256, b div 281474976710656 mod 256,
             b div 1099511627776 mod 256, b div 4294967296 mod 256,
             b div 16777216 mod 256, b div 65536 mod 256, b div 256 mod 256, b mod 256]"

definition sha_pad :: "int list \<Rightarrow> int list" where
  "sha_pad m = m @ [128] @ replicate ((119 - length m mod 64) mod 64) 0 @ be64 (int (length m) * 8)"

fun be_words :: "int list \<Rightarrow> int list" where
  "be_words (a # b # c # d # r) = (((a * 256 + b) * 256 + c) * 256 + d) # be_words r"
| "be_words _ = []"

fun chunks16 :: "nat \<Rightarrow> int list \<Rightarrow> int list list" where
  "chunks16 0 ws = []"
| "chunks16 (Suc n) ws = take 16 ws # chunks16 n (drop 16 ws)"

definition sha256_words :: "int list \<Rightarrow> sha_state" where
  "sha256_words ws = foldl compress H0 (chunks16 (length ws div 16) ws)"

definition sha256 :: "int list \<Rightarrow> sha_state" where
  "sha256 m = sha256_words (be_words (sha_pad m))"

definition hexd :: "int \<Rightarrow> char" where
  "hexd n = ''0123456789abcdef'' ! nat (n mod 16)"

definition hex32 :: "int \<Rightarrow> string" where
  "hex32 w = [hexd (w div 268435456), hexd (w div 16777216), hexd (w div 1048576),
              hexd (w div 65536), hexd (w div 4096), hexd (w div 256), hexd (w div 16), hexd w]"

fun state_hex :: "sha_state \<Rightarrow> string" where
  "state_hex (a, b, c, d, e, f, g, h) = concat (map hex32 [a, b, c, d, e, f, g, h])"

definition sha256_hex :: "string \<Rightarrow> string" where
  "sha256_hex s = state_hex (sha256 (map of_char s))"

subsection \<open>Buffer.toString('base64')\<close>

definition b64_char :: "nat \<Rightarrow> char" where
  "b64_char n =
     ''ABCDEFGHIJKLMNOPQRSTUVWXYZabcdefghijklmnopqrstuvwxyz0123456789+/'' ! (n mod 64)"

fun base64 :: "string \<Rightarrow> string" where
  "base64 (a # b # c # r) =
     (let x = (of_char a :: nat); y = (of_char b :: nat); z = (of_char c :: nat)
      in [b64_char (x div 4), b64_char ((x mod 4) * 16 + y div 16),
          b64_char ((y mod 16) * 4 + z div 64), b64_char (z mod 64)]) @ base64 r"
| "base64 [a, b] =
     (let x = (of_char a :: nat); y = (of_char b :: nat)
      in [b64_char (x div 4), b64_char ((x mod 4) * 16 + y div 16),
          b64_char ((y mod 16) * 4), CHR ''=''])"
| "base64 [a] =
     (let x = (of_char a :: nat)
      in [b64_char (x div 4), b64_char ((x mod 4) * 16), CHR ''='', CHR ''=''])"
| "base64 [] = []"

section \<open>clipboardItem.js\<close>

type_synonym buffer = string

abbreviation TEXT :: string where "TEXT \<equiv> ''text''"
abbreviation RICH_TEXT :: string where "RICH_TEXT \<equiv> ''richText''"
abbreviation IMAGE :: string where "IMAGE \<equiv> ''image''"
abbreviation FILE :: string where "FILE \<equiv> ''file''"
abbreviation MULTI_FILE :: string where "MULTI_FILE \<equiv> ''multi-file''"
abbreviation COLOR :: string where "COLOR \<equiv> ''color''"

text \<open>The fields of a ClipboardItem object. \<open>itemId\<close> and \<open>itemType\<close> are the
  source's \<^verbatim>\<open>id\<close> and \<^verbatim>\<open>type\<close>.\<close>

record ClipboardItem =
  itemId :: string
  itemType :: string
  timestamp :: int
  isPinned :: bool
  isDeleted :: bool
  contentHash :: string
  plainText :: "string option"
  richText :: "string option"
  imageData :: "buffer option"
  imageThumbnail :: "buffer option"
  imagePath :: "string option"
  thumbnailPath :: "string option"
  filePaths :: "string list option"
  colorValue :: "string option"
  sourceApplication :: "string option"
  fileSize :: "int option"
  fileCount :: "int option"
  fileTypes :: "string list option"
  isAllImages :: bool
  thumbnails :: "string list option"

text \<open>The object literal handed to the constructor; an absent key is \<open>None\<close>.\<close>

record ItemArgs =
  a_id :: "string option"
  a_type :: string
  a_timestamp :: "int option"
  a_isPinned :: bool
  a_isDeleted :: bool
  a_contentHash :: "string option"
  a_plainText :: "string option"
  a_richText :: "string option"
  a_imageData :: "buffer option"
  a_imageThumbnail :: "buffer option"
  a_imagePath :: "string option"
  a_thumbnailPath :: "string option"
  a_filePaths :: "string list option"
  a_colorValue :: "string option"
  a_sourceApplication :: "string option"
  a_fileSize :: "int option"
  a_fileCount :: "int option"
  a_fileTypes :: "string list option"
  a_isAllImages :: bool
  a_thumbnails :: "string list option"

text \<open>\<^verbatim>\<open>x || ''\<close> on a string that may be null.\<close>

definition or_empty :: "string option \<Rightarrow> string" where
  "or_empty x = (case x of None \<Rightarrow> [] | Some s \<Rightarrow> s)"

text \<open>\<^verbatim>\<open>_generateContentHash()\<close>, reading the fields of \<^verbatim>\<open>this\<close>.\<close>

definition generateContentHash :: "ClipboardItem \<Rightarrow> string" where
  "generateContentHash this =
     sha256_hex
       (if itemType this = TEXT \<or> itemType this = RICH_TEXT then or_empty (plainText this)
        else if itemType this = IMAGE then
          (case imageData this of None \<Rightarrow> [] | Some b \<Rightarrow> take 1000 (base64 b))
        else if itemType this = FILE \<or> itemType this = MULTI_FILE then
          (case filePaths this of None \<Rightarrow> [] | Some ps \<Rightarrow> JSON_stringify ps)
        else if itemType this = COLOR then or_empty (colorValue this)
        else [])"

text \<open>
  The constructor. \<^verbatim>\<open>this.contentHash = contentHash || this._generateContentHash()\<close>
  is the sixth assignment: when it runs, only id, type, timestamp, isPinned and isDeleted
  are set on \<^verbatim>\<open>this\<close>; the payload fields are assigned after it.
\<close>

definition new_ClipboardItem :: "int \<Rightarrow> string \<Rightarrow> ItemArgs \<Rightarrow> ClipboardItem" where
  "new_ClipboardItem now uuid a =
     (let this0 =
        \<lparr> itemId = (case a_id a of None \<Rightarrow> uuid | Some i \<Rightarrow> if i = [] then uuid else i),
          itemType = a_type a,
          timestamp = (case a_timestamp a of None \<Rightarrow> now | Some t \<Rightarrow> if t = 0 then now else t),
          isPinned = a_isPinned a,
          isDeleted = a_isDeleted a,
          contentHash = [],
          plainText = None, richText = None, imageData = None, imageThumbnail = None,
          imagePath = None, thumbnailPath = None, filePaths = None, colorValue = None,
          sourceApplication = None, fileSize = None, fileCount = None, fileTypes = None,
          isAllImages = False, thumbnails = None \<rparr>
      in this0
        \<lparr> contentHash :=
            (case a_contentHash a of
               None \<Rightarrow> generateContentHash this0
             | Some h \<Rightarrow> if h = [] then generateContentHash this0 else h),
          plainText := a_plainText a,
          richText := a_richText a,
          imageData := a_imageData a,
          imageThumbnail := a_imageThumbnail a,
          imagePath := a_imagePath a,
          thumbnailPath := a_thumbnailPath a,
          filePaths := a_filePaths a,
          colorValue := a_colorValue a,
          sourceApplication := a_sourceApplication a,
          fileSize := a_fileSize a,
          fileCount := a_fileCount a,
          fileTypes := a_fileTypes a,
          isAllImages := a_isAllImages a,
          thumbnails := a_thumbnails a \<rparr>)"

text \<open>The plain object exchanged with the database layer (\<^verbatim>\<open>toDatabase()\<close>'s
  result, \<^verbatim>\<open>rowToItem()\<close>'s result, the argument of \<^verbatim>\<open>fromDatabase\<close>).\<close>

record DbItem =
  db_id :: string
  db_type :: string
  db_timestamp :: int
  db_isPinned :: bool
  db_isDeleted :: bool
  db_contentHash :: string
  db_plainText :: "string option"
  db_richText :: "string option"
  db_imageData :: "buffer option"
  db_thumbnailData :: "buffer option"
  db_imagePath :: "string option"
  db_thumbnailPath :: "string option"
  db_filePaths :: "string list option"
  db_colorValue :: "string option"
  db_sourceApplication :: "string option"
  db_fileSize :: "int option"
  db_fileCount :: "int option"
  db_fileTypes :: "string option"
  db_isAllImages :: int
  db_thumbnails :: "string list option"

definition toDatabase :: "ClipboardItem \<Rightarrow> DbItem" where
  "toDatabase this =
     \<lparr> db_id = itemId this,
       db_type = itemType this,
       db_timestamp = timestamp this,
       db_isPinned = isPinned this,
       db_isDeleted = isDeleted this,
       db_contentHash = contentHash this,
       db_plainText = plainText this,
       db_richText = richText this,
       db_imageData = imageData this,
       db_thumbnailData = imageThumbnail this,
       db_imagePath = imagePath this,
       db_thumbnailPath = thumbnailPath this,
       db_filePaths = filePaths this,
       db_colorValue = colorValue this,
       db_sourceApplication = sourceApplication this,
       db_fileSize = fileSize this,
       db_fileCount = fileCount this,
       db_fileTypes = (case fileTypes this of None \<Rightarrow> None | Some ts \<Rightarrow> Some (JSON_stringify ts)),
       db_isAllImages = (if isAllImages this then 1 else 0),
       db_thumbnails = thumbnails this \<rparr>"

datatype error = SyntaxError | InsertFailed | QueryFailed | InvalidImageId | WriteFailed | SharpFailed

text \<open>\<^verbatim>\<open>fromDatabase\<close>: \<^verbatim>\<open>JSON.parse\<close> throws on a malformed
  \<^verbatim>\<open>fileTypes\<close> text; an empty text is falsy and reads as null.\<close>

definition fromDatabase :: "int \<Rightarrow> string \<Rightarrow> DbItem \<Rightarrow> error + ClipboardItem" where
  "fromDatabase now uuid dbRow =
     (case (case db_fileTypes dbRow of
              None \<Rightarrow> Inr None
            | Some t \<Rightarrow>
                if t = [] then Inr None
                else (case JSON_parse t of None \<Rightarrow> Inl SyntaxError | Some ts \<Rightarrow> Inr (Some ts))) of
        Inl e \<Rightarrow> Inl e
      | Inr fts \<Rightarrow>
          Inr (new_ClipboardItem now uuid
            \<lparr> a_id = Some (db_id dbRow),
              a_type = db_type dbRow,
              a_timestamp = Some (db_timestamp dbRow),
              a_isPinned = db_isPinned dbRow,
              a_isDeleted = db_isDeleted dbRow,
              a_contentHash = Some (db_contentHash dbRow),
              a_plainText = db_plainText dbRow,
              a_richText = db_richText dbRow,
              a_imageData = db_imageData dbRow,
              a_imageThumbnail = db_thumbnailData dbRow,
              a_imagePath = db_imagePath dbRow,
              a_thumbnailPath = db_thumbnailPath dbRow,
              a_filePaths = db_filePaths dbRow,
              a_colorValue = db_colorValue dbRow,
              a_sourceApplication = db_sourceApplication dbRow,
              a_fileSize = db_fileSize dbRow,
              a_fileCount = db_fileCount dbRow,
              a_fileTypes = fts,
              a_isAllImages = (db_isAllImages dbRow = 1),
              a_thumbnails = db_thumbnails dbRow \<rparr>))"

section \<open>database.js\<close>

text \<open>
  A value bound to, or stored in, a column. The stored value is the bound value: the
  coercions of SQLite's column affinity are not modelled.
\<close>

datatype sqlval = SNull | SInt int | SText string | SBlob buffer

text \<open>A row of table \<^verbatim>\<open>clipboard_items\<close>. \<open>col_id\<close>, \<open>col_type\<close> and
  \<open>col_timestamp\<close> are the columns \<^verbatim>\<open>id\<close>, \<^verbatim>\<open>type\<close> and \<^verbatim>\<open>timestamp\<close>.
  The eight columns that \<^verbatim>\<open>update\<close> can assign hold any bound value.\<close>

record Row =
  col_id :: string
  col_type :: string
  col_timestamp :: int
  is_pinned :: sqlval
  is_deleted :: sqlval
  content_hash :: string
  plain_text :: sqlval
  rich_text :: sqlval
  image_data :: sqlval
  thumbnail_data :: sqlval
  image_path :: "string option"
  thumbnail_path :: "string option"
  file_paths :: sqlval
  color_value :: sqlval
  source_application :: "string option"
  file_size :: "int option"
  file_count :: "int option"
  file_types :: "string option"
  is_all_images :: int

text \<open>The table, in rowid (insertion) order.\<close>

type_synonym database = "Row list"

definition sql_text :: "string option \<Rightarrow> sqlval" where
  "sql_text x = (case x of None \<Rightarrow> SNull | Some s \<Rightarrow> SText s)"

definition sql_blob :: "buffer option \<Rightarrow> sqlval" where
  "sql_blob x = (case x of None \<Rightarrow> SNull | Some b \<Rightarrow> SBlob b)"

text \<open>\<^verbatim>\<open>x || null\<close> on a string that may be null: the empty string is falsy.\<close>

definition or_null :: "string option \<Rightarrow> string option" where
  "or_null x = (case x of None \<Rightarrow> None | Some s \<Rightarrow> if s = [] then None else Some s)"

text \<open>\<^verbatim>\<open>insert(item)\<close>: the primary key rejects an id that is already stored
  (the statement throws and \<^verbatim>\<open>insert\<close> rethrows); otherwise one row is appended
  and \<^verbatim>\<open>result.changes > 0\<close> is true.\<close>

definition row_of_item :: "DbItem \<Rightarrow> Row" where
  "row_of_item item =
     \<lparr> col_id = db_id item,
       col_type = db_type item,
       col_timestamp = db_timestamp item,
       is_pinned = SInt (if db_isPinned item then 1 else 0),
       is_deleted = SInt (if db_isDeleted item then 1 else 0),
       content_hash = db_contentHash item,
       plain_text = sql_text (db_plainText item),
       rich_text = sql_text (db_richText item),
       image_data = sql_blob (db_imageData item),
       thumbnail_data = sql_blob (db_thumbnailData item),
       image_path = or_null (db_imagePath item),
       thumbnail_path = or_null (db_thumbnailPath item),
       file_paths = (case db_filePaths item of None \<Rightarrow> SNull | Some ps \<Rightarrow> SText (JSON_stringify ps)),
       color_value = sql_text (db_colorValue item),
       source_application = db_sourceApplication item,
       file_size = db_fileSize item,
       file_count = db_fileCount item,
       file_types = db_fileTypes item,
       is_all_images = db_isAllImages item \<rparr>"

definition insert_item :: "database \<Rightarrow> DbItem \<Rightarrow> error + (database \<times> bool)" where
  "insert_item db item =
     (if db_id item \<in> set (map col_id db) then Inl InsertFailed
      else Inr (db @ [row_of_item item], True))"

text \<open>\<^verbatim>\<open>rowToItem(row)\<close>. \<^verbatim>\<open>JSON.parse\<close> throws on a malformed
  \<^verbatim>\<open>file_paths\<close> text (\<open>None\<close>). A column holding a value of another storage
  class than the item field expects has no counterpart in \<open>DbItem\<close>: text and blob fields
  read as null then, and a truthy non-text \<^verbatim>\<open>file_paths\<close> counts as malformed.\<close>

definition text_of :: "sqlval \<Rightarrow> string option" where
  "text_of v = (case v of SText s \<Rightarrow> Some s | _ \<Rightarrow> None)"

definition blob_of :: "sqlval \<Rightarrow> buffer option" where
  "blob_of v = (case v of SBlob b \<Rightarrow> Some b | _ \<Rightarrow> None)"

definition parse_file_paths :: "sqlval \<Rightarrow> string list option option" where
  "parse_file_paths v =
     (case v of
        SNull \<Rightarrow> Some None
      | SText s \<Rightarrow> if s = [] then Some None
                   else (case JSON_parse s of None \<Rightarrow> None | Some ps \<Rightarrow> Some (Some ps))
      | SInt n \<Rightarrow> if n = 0 then Some None else None
      | SBlob b \<Rightarrow> None)"

definition rowToItem :: "Row \<Rightarrow> DbItem option" where
  "rowToItem row =
     (case parse_file_paths (file_paths row) of
        None \<Rightarrow> None
      | Some fps \<Rightarrow>
          Some \<lparr> db_id = col_id row,
                 db_type = col_type row,
                 db_timestamp = col_timestamp row,
                 db_isPinned = (is_pinned row = SInt 1),
                 db_isDeleted = (is_deleted row = SInt 1),
                 db_contentHash = content_hash row,
                 db_plainText = text_of (plain_text row),
                 db_richText = text_of (rich_text row),
                 db_imageData = blob_of (image_data row),
                 db_thumbnailData = blob_of (thumbnail_data row),
                 db_imagePath = image_path row,
                 db_thumbnailPath = thumbnail_path row,
                 db_filePaths = fps,
                 db_colorValue = text_of (color_value row),
                 db_sourceApplication = source_application row,
                 db_fileSize = file_size row,
                 db_fileCount = file_count row,
                 db_fileTypes = file_types row,
                 db_isAllImages = is_all_images row,
                 db_thumbnails = None \<rparr>)"

fun rowsToItems :: "Row list \<Rightarrow> DbItem list option" where
  "rowsToItems [] = Some []"
| "rowsToItems (r # rs) =
     (case rowToItem r of
        None \<Rightarrow> None
      | Some i \<Rightarrow> (case rowsToItems rs of None \<Rightarrow> None | Some is \<Rightarrow> Some (i # is)))"

text \<open>The WHERE clause shared by \<^verbatim>\<open>query\<close> and \<^verbatim>\<open>count\<close>: a filter that is
  null is left out, a boolean is compared as 1 or 0.\<close>

definition flag :: "bool \<Rightarrow> sqlval" where
  "flag b = SInt (if b then 1 else 0)"

definition matches :: "bool option \<Rightarrow> bool option \<Rightarrow> Row \<Rightarrow> bool" where
  "matches pinned deleted r \<longleftrightarrow>
     (case pinned of None \<Rightarrow> True | Some p \<Rightarrow> is_pinned r = flag p) \<and>
     (case deleted of None \<Rightarrow> True | Some d \<Rightarrow> is_deleted r = flag d)"

datatype direction = ASC | DESC

record QueryOptions =
  limit :: int
  offset :: int
  q_isPinned :: "bool option"
  q_isDeleted :: "bool option"
  orderDirection :: direction

text \<open>The defaults of \<^verbatim>\<open>query(options = {})\<close>.\<close>

definition query_defaults :: QueryOptions where
  "query_defaults =
     \<lparr> limit = 50, offset = 0, q_isPinned = None, q_isDeleted = None, orderDirection = DESC \<rparr>"

text \<open>
  \<^verbatim>\<open>ORDER BY timestamp\<close> (every caller in the repository orders by this column).
  SQL leaves the order of rows with equal timestamps open; the model keeps them in rowid
  order for ASC and in reverse rowid order for DESC. A negative LIMIT means no limit, a
  negative OFFSET means none.
\<close>

definition order_by_timestamp :: "direction \<Rightarrow> Row list \<Rightarrow> Row list" where
  "order_by_timestamp d rs =
     (case d of ASC \<Rightarrow> sort_key col_timestamp rs | DESC \<Rightarrow> rev (sort_key col_timestamp rs))"

definition limit_offset :: "int \<Rightarrow> int \<Rightarrow> 'a list \<Rightarrow> 'a list" where
  "limit_offset l off rs =
     (let rest = drop (nat off) rs in if l < 0 then rest else take (nat l) rest)"

definition select_rows :: "database \<Rightarrow> QueryOptions \<Rightarrow> Row list" where
  "select_rows db opts =
     limit_offset (limit opts) (offset opts)
       (order_by_timestamp (orderDirection opts)
         (filter (matches (q_isPinned opts) (q_isDeleted opts)) db))"

definition query :: "database \<Rightarrow> QueryOptions \<Rightarrow> error + DbItem list" where
  "query db opts =
     (case rowsToItems (select_rows db opts) of
        None \<Rightarrow> Inl QueryFailed
      | Some items \<Rightarrow> Inr items)"

definition getById :: "database \<Rightarrow> string \<Rightarrow> error + DbItem option" where
  "getById db i =
     (case filter (\<lambda>r. col_id r = i) db of
        [] \<Rightarrow> Inr None
      | r # _ \<Rightarrow> (case rowToItem r of None \<Rightarrow> Inl QueryFailed | Some item \<Rightarrow> Inr (Some item)))"

text \<open>\<^verbatim>\<open>camelToSnake\<close>: every upper-case ASCII letter becomes an underscore and the
  lower-case letter.\<close>

definition is_upper :: "char \<Rightarrow> bool" where
  "is_upper c \<longleftrightarrow> 65 \<le> (of_char c :: nat) \<and> (of_char c :: nat) \<le> 90"

definition to_lower :: "char \<Rightarrow> char" where
  "to_lower c = (if is_upper c then char_of ((of_char c :: nat) + 32) else c)"

definition camelToSnake :: "string \<Rightarrow> string" where
  "camelToSnake str = concat (map (\<lambda>c. if is_upper c then [CHR ''_'', to_lower c] else [c]) str)"

text \<open>A value of the \<^verbatim>\<open>updates\<close> object.\<close>

datatype jsval = JNull | JBool bool | JNum int | JStr string | JArr "string list" | JBuf buffer

definition allowedFields :: "string list" where
  "allowedFields =
     [''is_pinned'', ''is_deleted'', ''plain_text'', ''rich_text'',
      ''image_data'', ''thumbnail_data'', ''file_paths'', ''color_value'']"

text \<open>The conversions of \<^verbatim>\<open>update\<close> (boolean to integer, array to JSON text),
  followed by the binding of the value.\<close>

definition bind_value :: "jsval \<Rightarrow> sqlval" where
  "bind_value v =
     (case v of
        JNull \<Rightarrow> SNull
      | JBool b \<Rightarrow> SInt (if b then 1 else 0)
      | JNum n \<Rightarrow> SInt n
      | JStr s \<Rightarrow> SText s
      | JArr xs \<Rightarrow> SText (JSON_stringify xs)
      | JBuf b \<Rightarrow> SBlob b)"

text \<open>\<^verbatim>\<open>SET col = ?\<close> for a column of the whitelist.\<close>

definition set_column :: "Row \<Rightarrow> string \<times> sqlval \<Rightarrow> Row" where
  "set_column r kv =
     (case kv of (k, v) \<Rightarrow>
        if k = ''is_pinned'' then r\<lparr>is_pinned := v\<rparr>
        else if k = ''is_deleted'' then r\<lparr>is_deleted := v\<rparr>
        else if k = ''plain_text'' then r\<lparr>plain_text := v\<rparr>
        else if k = ''rich_text'' then r\<lparr>rich_text := v\<rparr>
        else if k = ''image_data'' then r\<lparr>image_data := v\<rparr>
        else if k = ''thumbnail_data'' then r\<lparr>thumbnail_data := v\<rparr>
        else if k = ''file_paths'' then r\<lparr>file_paths := v\<rparr>
        else if k = ''color_value'' then r\<lparr>color_value := v\<rparr>
        else r)"

text \<open>
  \<^verbatim>\<open>update(id, updates)\<close>. \<open>updates\<close> lists the keys of the object in
  \<^verbatim>\<open>Object.keys\<close> order. A column assigned twice keeps the rightmost value.
  \<^verbatim>\<open>result.changes\<close> counts the rows the WHERE clause selects.
\<close>

definition update_fields :: "(string \<times> jsval) list \<Rightarrow> (string \<times> sqlval) list" where
  "update_fields updates =
     map (\<lambda>(key, v). (camelToSnake key, bind_value v))
       (filter (\<lambda>(key, v). camelToSnake key \<in> set allowedFields) updates)"

definition update :: "database \<Rightarrow> string \<Rightarrow> (string \<times> jsval) list \<Rightarrow> database \<times> bool" where
  "update db i updates =
     (let fields = update_fields updates in
      if fields = [] then (db, False)
      else (map (\<lambda>r. if col_id r = i then foldl set_column r fields else r) db,
            \<exists>r \<in> set db. col_id r = i))"

text \<open>\<^verbatim>\<open>delete(ids)\<close>: returns \<^verbatim>\<open>result.changes\<close>.\<close>

definition delete :: "database \<Rightarrow> string list \<Rightarrow> database \<times> int" where
  "delete db ids =
     (filter (\<lambda>r. col_id r \<notin> set ids) db,
      int (length (filter (\<lambda>r. col_id r \<in> set ids) db)))"

definition count :: "database \<Rightarrow> bool option \<Rightarrow> bool option \<Rightarrow> int" where
  "count db pinned deleted = int (length (filter (matches pinned deleted) db))"

text \<open>\<^verbatim>\<open>existsByHash\<close>: the first row, in rowid order, that carries the hash and
  is not deleted.\<close>

definition existsByHash :: "database \<Rightarrow> string \<Rightarrow> string option" where
  "existsByHash db h =
     (case filter (\<lambda>r. content_hash r = h \<and> is_deleted r = SInt 0) db of
        [] \<Rightarrow> None
      | r # _ \<Rightarrow> Some (col_id r))"

section \<open>historyManager.js\<close>

record HistoryManager =
  db :: database
  maxItems :: int
  retentionDays :: int

text \<open>The constructor: an initialised database and the default limits.\<close>

definition new_HistoryManager :: "database \<Rightarrow> HistoryManager" where
  "new_HistoryManager d = \<lparr> db = d, maxItems = 1000, retentionDays = 30 \<rparr>"

text \<open>
  \<^verbatim>\<open>enforceStorageLimits()\<close>, first block: when more live rows exist than
  \<^verbatim>\<open>maxItems\<close>, the oldest non-pinned live rows are deleted, as many as the excess.
  An exception of \<^verbatim>\<open>query\<close> leaves the block (\<open>Inl\<close>).
\<close>

definition enforceMaxItems :: "int \<Rightarrow> database \<Rightarrow> error + database" where
  "enforceMaxItems maxI d =
     (let totalCount = count d None (Some False) in
      if totalCount > maxI then
        (let excessCount = totalCount - maxI in
         case query d \<lparr> limit = excessCount, offset = 0, q_isPinned = Some False,
                         q_isDeleted = Some False, orderDirection = ASC \<rparr> of
           Inl e \<Rightarrow> Inl e
         | Inr oldestItems \<Rightarrow>
             (let idsToDelete = map db_id oldestItems in
              if length idsToDelete > 0 then Inr (fst (delete d idsToDelete)) else Inr d))
      else Inr d)"

text \<open>Second block: non-pinned live rows older than the retention period are deleted;
  at most 10000 rows, oldest first, are examined.\<close>

definition enforceRetention :: "int \<Rightarrow> int \<Rightarrow> database \<Rightarrow> error + database" where
  "enforceRetention now days d =
     (if days > 0 then
        (let cutoffTimestamp = now - days * 24 * 60 * 60 * 1000 in
         case query d \<lparr> limit = 10000, offset = 0, q_isPinned = Some False,
                         q_isDeleted = Some False, orderDirection = ASC \<rparr> of
           Inl e \<Rightarrow> Inl e
         | Inr items \<Rightarrow>
             (let expiredItems = filter (\<lambda>item. db_timestamp item < cutoffTimestamp) items;
                  idsToDelete = map db_id expiredItems in
              if length idsToDelete > 0 then Inr (fst (delete d idsToDelete)) else Inr d))
      else Inr d)"

text \<open>Both blocks sit in one \<^verbatim>\<open>try\<close>: an exception is logged and ends the
  method, keeping what was deleted before it.\<close>

definition enforceStorageLimits :: "int \<Rightarrow> HistoryManager \<Rightarrow> HistoryManager" where
  "enforceStorageLimits now hm =
     (case enforceMaxItems (maxItems hm) (db hm) of
        Inl e \<Rightarrow> hm
      | Inr d1 \<Rightarrow>
          (case enforceRetention now (retentionDays hm) d1 of
             Inl e \<Rightarrow> hm\<lparr>db := d1\<rparr>
           | Inr d2 \<Rightarrow> hm\<lparr>db := d2\<rparr>))"

text \<open>
  \<^verbatim>\<open>addItem(item)\<close>. \<^verbatim>\<open>if (existingId)\<close> is a truthiness test: an empty id
  counts as no id. The result is the returned id (\<open>None\<close> for null); \<open>Inl\<close> is the
  rethrown exception, which leaves the store as it was.
\<close>

definition addItem :: "int \<Rightarrow> HistoryManager \<Rightarrow> ClipboardItem \<Rightarrow> error + (HistoryManager \<times> string option)" where
  "addItem now hm item =
     (let existingId = existsByHash (db hm) (contentHash item) in
      if existingId \<noteq> None \<and> existingId \<noteq> Some [] then
        Inr (hm\<lparr>db := fst (update (db hm) (the existingId) [(''timestamp'', JNum (timestamp item))])\<rparr>,
             existingId)
      else
        (case insert_item (db hm) (toDatabase item) of
           Inl e \<Rightarrow> Inl e
         | Inr (d, success) \<Rightarrow>
             if success then Inr (enforceStorageLimits now (hm\<lparr>db := d\<rparr>), Some (itemId item))
             else Inr (hm\<lparr>db := d\<rparr>, None)))"

definition pinItem :: "HistoryManager \<Rightarrow> string \<Rightarrow> HistoryManager \<times> bool" where
  "pinItem hm i =
     (case update (db hm) i [(''isPinned'', JBool True)] of (d, success) \<Rightarrow> (hm\<lparr>db := d\<rparr>, success))"

definition unpinItem :: "HistoryManager \<Rightarrow> string \<Rightarrow> HistoryManager \<times> bool" where
  "unpinItem hm i =
     (case update (db hm) i [(''isPinned'', JBool False)] of (d, success) \<Rightarrow> (hm\<lparr>db := d\<rparr>, success))"

definition getItemById :: "int \<Rightarrow> string \<Rightarrow> HistoryManager \<Rightarrow> string \<Rightarrow> error + ClipboardItem option" where
  "getItemById now uuid hm i =
     (case getById (db hm) i of
        Inl e \<Rightarrow> Inl e
      | Inr None \<Rightarrow> Inr None
      | Inr (Some item) \<Rightarrow>
          (case fromDatabase now uuid item of Inl e \<Rightarrow> Inl e | Inr it \<Rightarrow> Inr (Some it)))"

definition togglePin :: "int \<Rightarrow> string \<Rightarrow> HistoryManager \<Rightarrow> string \<Rightarrow> error + (HistoryManager \<times> bool)" where
  "togglePin now uuid hm i =
     (case getItemById now uuid hm i of
        Inl e \<Rightarrow> Inl e
      | Inr None \<Rightarrow> Inr (hm, False)
      | Inr (Some item) \<Rightarrow> Inr (if isPinned item then unpinItem hm i else pinItem hm i))"

text \<open>The loops of \<^verbatim>\<open>moveToTrash\<close> and \<^verbatim>\<open>restoreFromTrash\<close>: one
  \<^verbatim>\<open>update\<close> per id, counting the successes.\<close>

fun set_deleted_all :: "bool \<Rightarrow> database \<Rightarrow> string list \<Rightarrow> database \<times> int" where
  "set_deleted_all b d [] = (d, 0)"
| "set_deleted_all b d (i # ids) =
     (case update d i [(''isDeleted'', JBool b)] of
        (d1, success) \<Rightarrow>
          (case set_deleted_all b d1 ids of
             (d2, n) \<Rightarrow> (d2, (if success then 1 else 0) + n)))"

definition moveToTrash :: "HistoryManager \<Rightarrow> string list \<Rightarrow> HistoryManager \<times> int" where
  "moveToTrash hm ids =
     (case set_deleted_all True (db hm) ids of (d, successCount) \<Rightarrow> (hm\<lparr>db := d\<rparr>, successCount))"

definition restoreFromTrash :: "HistoryManager \<Rightarrow> string list \<Rightarrow> HistoryManager \<times> int" where
  "restoreFromTrash hm ids =
     (case set_deleted_all False (db hm) ids of (d, successCount) \<Rightarrow> (hm\<lparr>db := d\<rparr>, successCount))"

definition deleteItems :: "HistoryManager \<Rightarrow> string list \<Rightarrow> HistoryManager \<times> int" where
  "deleteItems hm ids =
     (case delete (db hm) ids of (d, deletedCount) \<Rightarrow> (hm\<lparr>db := d\<rparr>, deletedCount))"

definition emptyTrash :: "HistoryManager \<Rightarrow> error + (HistoryManager \<times> int)" where
  "emptyTrash hm =
     (case query (db hm) (query_defaults\<lparr>q_isDeleted := Some True, limit := 10000\<rparr>) of
        Inl e \<Rightarrow> Inl e
      | Inr trashedItems \<Rightarrow>
          (let ids = map db_id trashedItems in
           if length ids > 0 then
             (case delete (db hm) ids of (d, deletedCount) \<Rightarrow> Inr (hm\<lparr>db := d\<rparr>, deletedCount))
           else Inr (hm, 0)))"

definition clearAllHistory :: "HistoryManager \<Rightarrow> error + (HistoryManager \<times> int)" where
  "clearAllHistory hm =
     (case query (db hm)
             (query_defaults\<lparr>q_isPinned := Some False, q_isDeleted := Some False, limit := 10000\<rparr>) of
        Inl e \<Rightarrow> Inl e
      | Inr items \<Rightarrow>
          (let ids = map db_id items in
           if length ids > 0 then
             (case delete (db hm) ids of (d, deletedCount) \<Rightarrow> Inr (hm\<lparr>db := d\<rparr>, deletedCount))
           else Inr (hm, 0)))"

text \<open>\<^verbatim>\<open>updatePreferences(prefs)\<close>: an absent key is \<open>None\<close>.\<close>

definition updatePreferences :: "int \<Rightarrow> HistoryManager \<Rightarrow> int option \<Rightarrow> int option \<Rightarrow> HistoryManager" where
  "updatePreferences now hm maxHistoryItems retention =
     enforceStorageLimits now
       (hm\<lparr> maxItems := (case maxHistoryItems of None \<Rightarrow> maxItems hm | Some m \<Rightarrow> m),
            retentionDays := (case retention of None \<Rightarrow> retentionDays hm | Some r \<Rightarrow> r) \<rparr>)"

section \<open>imageStorageManager.js\<close>

subsection \<open>path.join (POSIX)\<close>

text \<open>\<^verbatim>\<open>str.split('/')\<close>.\<close>

fun split_slash :: "string \<Rightarrow> string list" where
  "split_slash [] = [[]]"
| "split_slash (c # cs) =
     (if c = CHR ''/'' then [] # split_slash cs
      else (case split_slash cs of [] \<Rightarrow> [[c]] | x # xs \<Rightarrow> (c # x) # xs))"

fun join_slash :: "string list \<Rightarrow> string" where
  "join_slash [] = []"
| "join_slash [x] = x"
| "join_slash (x # y # ys) = x @ CHR ''/'' # join_slash (y # ys)"

text \<open>\<^verbatim>\<open>normalizeString\<close>: empty and \<^verbatim>\<open>.\<close> segments are dropped, a
  \<^verbatim>\<open>..\<close> segment removes the segment before it, or stays when there is none and the
  path is relative. \<open>acc\<close> is the result so far, last segment first.\<close>

fun normalize_segments :: "bool \<Rightarrow> string list \<Rightarrow> string list \<Rightarrow> string list" where
  "normalize_segments allowAboveRoot acc [] = rev acc"
| "normalize_segments allowAboveRoot acc (s # ss) =
     (if s = [] \<or> s = ''.'' then normalize_segments allowAboveRoot acc ss
      else if s = ''..'' then
        (if acc = [] \<or> hd acc = ''..''
         then (if allowAboveRoot then normalize_segments allowAboveRoot (''..'' # acc) ss
               else normalize_segments allowAboveRoot acc ss)
         else normalize_segments allowAboveRoot (tl acc) ss)
      else normalize_segments allowAboveRoot (s # acc) ss)"

definition path_normalize :: "string \<Rightarrow> string" where
  "path_normalize p =
     (if p = [] then ''.''
      else
        (let isAbsolute = (hd p = CHR ''/'');
             trailingSeparator = (last p = CHR ''/'');
             q = join_slash (normalize_segments (\<not> isAbsolute) [] (split_slash p))
         in if q = [] then (if isAbsolute then ''/'' else if trailingSeparator then ''./'' else ''.'')
            else (if isAbsolute then [CHR ''/''] else []) @ q @ (if trailingSeparator then ''/'' else [])))"

definition path_join :: "string \<Rightarrow> string \<Rightarrow> string" where
  "path_join a b =
     (if a = [] \<and> b = [] then ''.''
      else if a = [] then path_normalize b
      else if b = [] then path_normalize a
      else path_normalize (a @ CHR ''/'' # b))"

subsection \<open>The file system\<close>

text \<open>Directories and regular files by normalised absolute path. Writing a file needs
  its parent directory and fails on a path that is a directory.\<close>

record FileSystem =
  dirs :: "string set"
  files :: "string \<rightharpoonup> buffer"

definition parent_dir :: "string \<Rightarrow> string" where
  "parent_dir p =
     (let q = rev (dropWhile (\<lambda>c. c \<noteq> CHR ''/'') (rev p))
      in if q = [] then ''.'' else if q = ''/'' then ''/'' else butlast q)"

definition writeFile :: "FileSystem \<Rightarrow> string \<Rightarrow> buffer \<Rightarrow> error + FileSystem" where
  "writeFile fs p data =
     (if parent_dir p \<in> dirs fs \<and> p \<notin> dirs fs then Inr (fs\<lparr>files := (files fs)(p \<mapsto> data)\<rparr>)
      else Inl WriteFailed)"

definition unlink :: "FileSystem \<Rightarrow> string \<Rightarrow> FileSystem" where
  "unlink fs p = fs\<lparr>files := (files fs)(p := None)\<rparr>"

text \<open>The directories \<^verbatim>\<open>mkdir(p, {recursive: true})\<close> makes sure of: \<open>p\<close> and the
  directories above it.\<close>

definition ancestors :: "string \<Rightarrow> string list" where
  "ancestors p =
     (if p \<noteq> [] \<and> hd p = CHR ''/'' then [''/''] else []) @
     map (\<lambda>k. take k p) (filter (\<lambda>k. p ! k = CHR ''/'') [1..<length p]) @ [p]"

definition mkdir_recursive :: "FileSystem \<Rightarrow> string \<Rightarrow> error + FileSystem" where
  "mkdir_recursive fs p =
     (if \<exists>a \<in> set (ancestors p). files fs a \<noteq> None then Inl WriteFailed
      else Inr (fs\<lparr>dirs := dirs fs \<union> set (ancestors p)\<rparr>))"

subsection \<open>ImageStorageManager\<close>

record ImageStorageManager =
  basePath :: string
  imagesPath :: string
  thumbnailsPath :: string

definition new_ImageStorageManager :: "string \<Rightarrow> ImageStorageManager" where
  "new_ImageStorageManager base =
     \<lparr> basePath = base, imagesPath = path_join base ''images'',
       thumbnailsPath = path_join base ''thumbnails'' \<rparr>"

definition initialize :: "ImageStorageManager \<Rightarrow> FileSystem \<Rightarrow> error + FileSystem" where
  "initialize mgr fs =
     (case mkdir_recursive fs (imagesPath mgr) of
        Inl e \<Rightarrow> Inl e
      | Inr fs1 \<Rightarrow> mkdir_recursive fs1 (thumbnailsPath mgr))"

text \<open>The image library \<^verbatim>\<open>sharp\<close> is not part of the repository: its two
  conversions are parameters; \<open>None\<close> is the exception of \<^verbatim>\<open>toBuffer()\<close>.\<close>

record Sharp =
  to_webp :: "buffer \<Rightarrow> buffer option"
  to_thumbnail_jpeg :: "buffer \<Rightarrow> buffer option"

record SavedImage =
  saved_id :: string
  saved_imagePath :: string
  saved_thumbnailPath :: string
  saved_fileSize :: int

text \<open>
  \<^verbatim>\<open>saveImage(imageBuffer, id = null)\<close>. The id is used as it comes. The result
  pairs the file system after the call with the returned object or the rethrown exception.
\<close>

definition saveImage ::
  "Sharp \<Rightarrow> ImageStorageManager \<Rightarrow> string \<Rightarrow> FileSystem \<Rightarrow> buffer \<Rightarrow> string option
     \<Rightarrow> FileSystem \<times> (error + SavedImage)" where
  "saveImage sharp mgr uuid fs imageBuffer ido =
     (let imageId = (case ido of None \<Rightarrow> uuid | Some i \<Rightarrow> if i = [] then uuid else i) in
      case to_webp sharp imageBuffer of
        None \<Rightarrow> (fs, Inl SharpFailed)
      | Some compressedBuffer \<Rightarrow>
          (let imagePath = path_join (imagesPath mgr) (imageId @ ''.webp'') in
           case writeFile fs imagePath compressedBuffer of
             Inl e \<Rightarrow> (fs, Inl e)
           | Inr fs1 \<Rightarrow>
               (case to_thumbnail_jpeg sharp imageBuffer of
                  None \<Rightarrow> (fs1, Inl SharpFailed)
                | Some thumbnailBuffer \<Rightarrow>
                    (let thumbnailPath = path_join (thumbnailsPath mgr) (imageId @ ''.jpg'') in
                     case writeFile fs1 thumbnailPath thumbnailBuffer of
                       Inl e \<Rightarrow> (fs1, Inl e)
                     | Inr fs2 \<Rightarrow>
                         (fs2, Inr \<lparr> saved_id = imageId, saved_imagePath = imagePath,
                                     saved_thumbnailPath = thumbnailPath,
                                     saved_fileSize = int (length imageBuffer) \<rparr>)))))"

text \<open>The check at the head of \<^verbatim>\<open>deleteImage\<close>, \<^verbatim>\<open>readImage\<close> and
  \<^verbatim>\<open>readThumbnail\<close>: \<^verbatim>\<open>!id || id.includes('..') || id.includes('/') ||
  id.includes('\\')\<close>.\<close>

fun str_includes :: "string \<Rightarrow> string \<Rightarrow> bool" where
  "str_includes [] sub = (sub = [])"
| "str_includes (c # cs) sub = (take (length sub) (c # cs) = sub \<or> str_includes cs sub)"

definition invalid_id :: "string \<Rightarrow> bool" where
  "invalid_id i \<longleftrightarrow> i = [] \<or> str_includes i ''..'' \<or> str_includes i ''/'' \<or> str_includes i [BSL]"

definition getImagePath :: "ImageStorageManager \<Rightarrow> string \<Rightarrow> string" where
  "getImagePath mgr i = path_join (imagesPath mgr) (i @ ''.png'')"

definition getThumbnailPath :: "ImageStorageManager \<Rightarrow> string \<Rightarrow> string" where
  "getThumbnailPath mgr i = path_join (thumbnailsPath mgr) (i @ ''.jpg'')"

text \<open>\<^verbatim>\<open>deleteImage(id)\<close>: both unlinks are attempted, their failures ignored.\<close>

definition deleteImage :: "ImageStorageManager \<Rightarrow> FileSystem \<Rightarrow> string \<Rightarrow> FileSystem \<times> (error + bool)" where
  "deleteImage mgr fs i =
     (if invalid_id i then (fs, Inl InvalidImageId)
      else
        (let imagePath = path_join (imagesPath mgr) (i @ ''.png'');
             thumbnailPath = path_join (thumbnailsPath mgr) (i @ ''.jpg'')
         in (unlink (unlink fs imagePath) thumbnailPath, Inr True)))"

definition imageExists :: "ImageStorageManager \<Rightarrow> FileSystem \<Rightarrow> string \<Rightarrow> bool" where
  "imageExists mgr fs i \<longleftrightarrow> files fs (path_join (imagesPath mgr) (i @ ''.png'')) \<noteq> None"

text \<open>\<^verbatim>\<open>readImage(id)\<close>, \<^verbatim>\<open>readThumbnail(id)\<close>: a failed read is caught and
  gives null.\<close>

definition readImage :: "ImageStorageManager \<Rightarrow> FileSystem \<Rightarrow> string \<Rightarrow> error + buffer option" where
  "readImage mgr fs i =
     (if invalid_id i then Inl InvalidImageId else Inr (files fs (getImagePath mgr i)))"

definition readThumbnail :: "ImageStorageManager \<Rightarrow> FileSystem \<Rightarrow> string \<Rightarrow> error + buffer option" where
  "readThumbnail mgr fs i =
     (if invalid_id i then Inl InvalidImageId else Inr (files fs (getThumbnailPath mgr i)))"

text \<open>The operations of the history manager as steps on its state; an operation that
  throws leaves the state as it was.\<close>

datatype operation =
    AddItem int ClipboardItem
  | PinItem string
  | UnpinItem string
  | TogglePin int string string
  | MoveToTrash "string list"
  | RestoreFromTrash "string list"
  | DeleteItems "string list"
  | EmptyTrash
  | ClearAllHistory
  | EnforceStorageLimits int
  | UpdatePreferences int "int option" "int option"

fun is_restore :: "operation \<Rightarrow> bool" where
  "is_restore (RestoreFromTrash ids) = True"
| "is_restore _ = False"

fun run :: "HistoryManager \<Rightarrow> operation \<Rightarrow> HistoryManager" where
  "run hm (AddItem now item) = (case addItem now hm item of Inl e \<Rightarrow> hm | Inr (hm', r) \<Rightarrow> hm')"
| "run hm (PinItem i) = fst (pinItem hm i)"
| "run hm (UnpinItem i) = fst (unpinItem hm i)"
| "run hm (TogglePin now uuid i) = (case togglePin now uuid hm i of Inl e \<Rightarrow> hm | Inr (hm', r) \<Rightarrow> hm')"
| "run hm (MoveToTrash ids) = fst (moveToTrash hm ids)"
| "run hm (RestoreFromTrash ids) = fst (restoreFromTrash hm ids)"
| "run hm (DeleteItems ids) = fst (deleteItems hm ids)"
| "run hm EmptyTrash = (case emptyTrash hm of Inl e \<Rightarrow> hm | Inr (hm', n) \<Rightarrow> hm')"
| "run hm ClearAllHistory = (case clearAllHistory hm of Inl e \<Rightarrow> hm | Inr (hm', n) \<Rightarrow> hm')"
| "run hm (EnforceStorageLimits now) = enforceStorageLimits now hm"
| "run hm (UpdatePreferences now m r) = updatePreferences now hm m r"

text \<open>Live rows are the rows that are not deleted (\<^verbatim>\<open>is_deleted = 0\<close>).\<close>

definition live :: "Row \<Rightarrow> bool" where
  "live r \<longleftrightarrow> is_deleted r = SInt 0"

definition unique_live_hashes :: "database \<Rightarrow> bool" where
  "unique_live_hashes d \<longleftrightarrow> distinct (map content_hash (filter live d))"

text \<open>What the primary key and the constructor's \<^verbatim>\<open>id || uuidv4()\<close> give: ids
  are pairwise different and not empty.\<close>

definition ids_ok :: "database \<Rightarrow> bool" where
  "ids_ok d \<longleftrightarrow> distinct (map col_id d) \<and> [] \<notin> set (map col_id d)"

fun item_ok :: "operation \<Rightarrow> bool" where
  "item_ok (AddItem now item) = (itemId item \<noteq> [])"
| "item_ok _ = True"


text \<open>The rows both passes of \<^verbatim>\<open>enforceStorageLimits\<close> select from: not pinned
  and not deleted; and the first \<open>n\<close> of them by ascending timestamp.\<close>

definition np_live :: "Row \<Rightarrow> bool" where
  "np_live r \<longleftrightarrow> is_pinned r = SInt 0 \<and> is_deleted r = SInt 0"


definition store_inv :: "database \<Rightarrow> bool" where
  "store_inv d \<longleftrightarrow> ids_ok d \<and> unique_live_hashes d"

text \<open>A text item as the clipboard monitor builds it: id, timestamp, hash and text
  are given to the constructor.\<close>

definition text_item :: "string \<Rightarrow> int \<Rightarrow> string \<Rightarrow> string \<Rightarrow> ClipboardItem" where
  "text_item i ts h txt =
     new_ClipboardItem ts i
       \<lparr> a_id = Some i, a_type = TEXT, a_timestamp = Some ts, a_isPinned = False,
         a_isDeleted = False, a_contentHash = Some h, a_plainText = Some txt,
         a_richText = None, a_imageData = None, a_imageThumbnail = None, a_imagePath = None,
         a_thumbnailPath = None, a_filePaths = None, a_colorValue = None,
         a_sourceApplication = None, a_fileSize = Some (int (length txt)), a_fileCount = None,
         a_fileTypes = None, a_isAllImages = False, a_thumbnails = None \<rparr>"

section \<open>The application (main.js) and the clipboard monitor's image capture\<close>

record App =
  historyManager :: HistoryManager
  imageStorageManager :: ImageStorageManager
  disk :: FileSystem

text \<open>\<^verbatim>\<open>createClipboardItem\<close>, the branch for an image with a storage manager,
  followed by \<^verbatim>\<open>handleClipboardChange\<close>: the image is saved under a fresh id and
  the item that carries the two paths is added to the history.\<close>

definition captureImage :: "Sharp \<Rightarrow> int \<Rightarrow> string \<Rightarrow> App \<Rightarrow> buffer \<Rightarrow> string \<Rightarrow> App" where
  "captureImage sharp now uuid app imageBuffer hash =
     (case saveImage sharp (imageStorageManager app) uuid (disk app) imageBuffer None of
        (fs, Inl e) \<Rightarrow> app\<lparr>disk := fs\<rparr>
      | (fs, Inr saved) \<Rightarrow>
          (let item = new_ClipboardItem now uuid
                 \<lparr> a_id = Some (saved_id saved), a_type = IMAGE, a_timestamp = None,
                   a_isPinned = False, a_isDeleted = False, a_contentHash = Some hash,
                   a_plainText = None, a_richText = None, a_imageData = None,
                   a_imageThumbnail = None, a_imagePath = Some (saved_imagePath saved),
                   a_thumbnailPath = Some (saved_thumbnailPath saved), a_filePaths = None,
                   a_colorValue = None, a_sourceApplication = None,
                   a_fileSize = Some (saved_fileSize saved), a_fileCount = None,
                   a_fileTypes = None, a_isAllImages = False, a_thumbnails = None \<rparr>
           in app\<lparr>disk := fs, historyManager := run (historyManager app) (AddItem now item)\<rparr>))"

text \<open>An operation of the history manager inside the application. The history manager
  holds the database only; it has no reference to the image storage manager.\<close>

definition app_run :: "App \<Rightarrow> operation \<Rightarrow> App" where
  "app_run app op = app\<lparr>historyManager := run (historyManager app) op\<rparr>"

text \<open>An image library that succeeds on every buffer (its output is of no interest here).\<close>

definition sharp_ok :: Sharp where
  "sharp_ok = \<lparr> to_webp = (\<lambda>b. Some (''RIFF'' @ b)), to_thumbnail_jpeg = (\<lambda>b. Some (''JFIF'' @ b)) \<rparr>"

section \<open>Example data\<close>

text \<open>``Hello'' is captured, moved to the trash, captured again and the first capture is
  restored.\<close>

definition recapture_then_restore :: "operation list" where
  "recapture_then_restore =
     [AddItem 5000 (text_item ''a'' 1000 ''h1'' ''Hello''),
      MoveToTrash [''a''],
      AddItem 6000 (text_item ''b'' 2000 ''h1'' ''Hello''),
      RestoreFromTrash [''a'']]"

definition session_without_restore :: "operation list" where
  "session_without_restore =
     [AddItem 5000 (text_item ''a'' 1000 ''h1'' ''Hello''),
      AddItem 5500 (text_item ''c'' 1500 ''h2'' ''World''),
      PinItem ''c'',
      MoveToTrash [''a''],
      AddItem 6000 (text_item ''b'' 2000 ''h1'' ''Hello''),
      EmptyTrash,
      ClearAllHistory]"

text \<open>A stored text row, and two stores: six rows under a limit of one, and a store
  with two rows older than the retention period, one of them pinned.\<close>

definition stored_text :: "string \<Rightarrow> int \<Rightarrow> bool \<Rightarrow> string \<Rightarrow> string \<Rightarrow> Row" where
  "stored_text i ts pinned h txt = (row_of_item (toDatabase (text_item i ts h txt)))\<lparr>is_pinned := flag pinned\<rparr>"



text \<open>A row of the time before file storage: the image sits in the row as a BLOB.\<close>

definition blob_row :: Row where
  "blob_row =
     row_of_item (toDatabase (new_ClipboardItem 1000 ''img''
       \<lparr> a_id = Some ''img'', a_type = IMAGE, a_timestamp = Some 1000, a_isPinned = False,
         a_isDeleted = False, a_contentHash = Some ''h9'', a_plainText = None,
         a_richText = None, a_imageData = Some ''PNGDATA'', a_imageThumbnail = Some ''THUMB'',
         a_imagePath = None, a_thumbnailPath = None, a_filePaths = None, a_colorValue = None,
         a_sourceApplication = None, a_fileSize = Some 7, a_fileCount = None,
         a_fileTypes = None, a_isAllImages = False, a_thumbnails = None \<rparr>))"


text \<open>What the constructor's \<^verbatim>\<open>||\<close> defaults give every item it builds: an id, a
  timestamp and a hash that are not falsy.\<close>

definition item_wf :: "ClipboardItem \<Rightarrow> bool" where
  "item_wf item \<longleftrightarrow> itemId item \<noteq> [] \<and> timestamp item \<noteq> 0 \<and> contentHash item \<noteq> []"

text \<open>An object literal that gives the constructor the type only.\<close>

definition no_args :: "string \<Rightarrow> ItemArgs" where
  "no_args ty =
     \<lparr> a_id = None, a_type = ty, a_timestamp = None, a_isPinned = False, a_isDeleted = False,
       a_contentHash = None, a_plainText = None, a_richText = None, a_imageData = None,
       a_imageThumbnail = None, a_imagePath = None, a_thumbnailPath = None, a_filePaths = None,
       a_colorValue = None, a_sourceApplication = None, a_fileSize = None, a_fileCount = None,
       a_fileTypes = None, a_isAllImages = False, a_thumbnails = None \<rparr>"

text \<open>Two files copied in the Finder, as \<^verbatim>\<open>createMultiFileItem\<close> builds the item; and
  a file item whose list of paths is the empty array.\<close>

definition copied_files :: ClipboardItem where
  "copied_files =
     new_ClipboardItem 1700000000000 ''3f2b8c1e''
       ((no_args MULTI_FILE)
          \<lparr> a_contentHash := Some ''h7'',
            a_filePaths := Some [''/Users/me/a b.png'', ''/tmp/notes.txt''],
            a_sourceApplication := Some ''Finder'', a_fileCount := Some 2,
            a_fileTypes := Some [''png'', ''txt''], a_isAllImages := False \<rparr>)"


chapter \<open>Properties\<close>

section \<open>JSON.parse inverts JSON.stringify\<close>

lemma hex_value_hex_digit: "k < 16 \<Longrightarrow> hex_value (hex_digit k) = Some k"
proof -
  assume "k < 16"
  then have "k = 0 \<or> k = 1 \<or> k = 2 \<or> k = 3 \<or> k = 4 \<or> k = 5 \<or> k = 6 \<or> k = 7 \<or> k = 8
      \<or> k = 9 \<or> k = 10 \<or> k = 11 \<or> k = 12 \<or> k = 13 \<or> k = 14 \<or> k = 15" by arith
  then show ?thesis
    by (elim disjE) (simp_all add: hex_value_def hex_digit_def)
qed

lemma hex4_control:
  assumes "(of_char c :: nat) < 32"
  shows "hex4 (CHR ''0'') (CHR ''0'') (hex_digit (of_char c div 16)) (hex_digit (of_char c mod 16)) = Some c"
proof -
  have z: "hex_value (CHR ''0'') = Some 0" by (simp add: hex_value_def)
  have a: "hex_value (hex_digit (of_char c div 16)) = Some (of_char c div 16)"
    using assms by (intro hex_value_hex_digit) simp
  have b: "hex_value (hex_digit (of_char c mod 16)) = Some (of_char c mod 16)"
    by (intro hex_value_hex_digit) simp
  have "char_of ((of_char c :: nat) div 16 * 16 + of_char c mod 16) = c"
    by simp
  then show ?thesis by (simp add: hex4_def z a b)
qed

lemma json_run_escape:
  "json_run (PString s) acc (json_escape c @ rest) = json_run (PString (c # s)) acc rest"
proof -
  consider (dq) "c = DQ" | (bsl) "c = BSL" | (b) "c = CHR 0x08" | (f) "c = CHR 0x0C"
    | (n) "c = CHR 0x0A" | (r) "c = CHR 0x0D" | (t) "c = CHR 0x09"
    | (ctl) "c \<notin> {DQ, BSL, CHR 0x08, CHR 0x0C, CHR 0x0A, CHR 0x0D, CHR 0x09}" "(of_char c :: nat) < 32"
    | (plain) "c \<notin> {DQ, BSL, CHR 0x08, CHR 0x0C, CHR 0x0A, CHR 0x0D, CHR 0x09}" "\<not> (of_char c :: nat) < 32"
    by blast
  then show ?thesis
  proof cases
    case ctl
    then show ?thesis by (simp add: json_escape_def hex4_control)
  next
    case plain
    then show ?thesis by (simp add: json_escape_def)
  qed (simp_all add: json_escape_def json_unescape_def)
qed

lemma json_run_string_body:
  "json_run (PString s) acc (concat (map json_escape x) @ DQ # rest) =
   json_run PAfter ((rev s @ x) # acc) rest"
proof (induction x arbitrary: s)
  case Nil
  then show ?case by simp
next
  case (Cons c x)
  have "json_run (PString s) acc (concat (map json_escape (c # x)) @ DQ # rest) =
        json_run (PString s) acc (json_escape c @ (concat (map json_escape x) @ DQ # rest))"
    by simp
  also have "\<dots> = json_run (PString (c # s)) acc (concat (map json_escape x) @ DQ # rest)"
    by (rule json_run_escape)
  also have "\<dots> = json_run PAfter ((rev (c # s) @ x) # acc) rest"
    by (rule Cons.IH)
  finally show ?case by simp
qed

lemma json_run_quoted:
  "json_run PValue acc (quoteJSONString x @ rest) = json_run PAfter (x # acc) rest"
  "json_run PFirst acc (quoteJSONString x @ rest) = json_run PAfter (x # acc) rest"
  using json_run_string_body [of "[]" acc x rest]
  by (simp_all add: quoteJSONString_def is_ws_def)

lemma json_run_elements:
  "json_run PAfter acc (concat (map (\<lambda>x. CHR '','' # quoteJSONString x) xs) @ '']'') =
   Some (rev acc @ xs)"
proof (induction xs arbitrary: acc)
  case Nil
  then show ?case by (simp add: is_ws_def)
next
  case (Cons x xs)
  have "json_run PAfter acc (concat (map (\<lambda>x. CHR '','' # quoteJSONString x) (x # xs)) @ '']'') =
        json_run PValue acc (quoteJSONString x @ (concat (map (\<lambda>x. CHR '','' # quoteJSONString x) xs) @ '']''))"
    by (simp add: is_ws_def)
  also have "\<dots> = json_run PAfter (x # acc) (concat (map (\<lambda>x. CHR '','' # quoteJSONString x) xs) @ '']'')"
    by (rule json_run_quoted)
  also have "\<dots> = Some (rev (x # acc) @ xs)"
    by (rule Cons.IH)
  finally show ?case by simp
qed

lemma join_comma_Cons:
  "join_comma (x # xs) = x @ concat (map (\<lambda>y. CHR '','' # y) xs)"
  by (induction xs arbitrary: x) simp_all

lemma JSON_parse_stringify: "JSON_parse (JSON_stringify xs) = Some xs"
proof (cases xs)
  case Nil
  then show ?thesis by (simp add: JSON_parse_def JSON_stringify_def is_ws_def)
next
  case (Cons x ys)
  have "JSON_stringify xs = CHR ''['' # quoteJSONString x @
          (concat (map (\<lambda>x. CHR '','' # quoteJSONString x) ys) @ '']'')"
    by (simp add: JSON_stringify_def Cons join_comma_Cons map_concat comp_def del: join_comma.simps)
  then have "JSON_parse (JSON_stringify xs) =
        json_run PFirst [] (quoteJSONString x @ (concat (map (\<lambda>x. CHR '','' # quoteJSONString x) ys) @ '']''))"
    by (simp add: JSON_parse_def is_ws_def)
  also have "\<dots> = json_run PAfter [x] (concat (map (\<lambda>x. CHR '','' # quoteJSONString x) ys) @ '']'')"
    by (rule json_run_quoted)
  also have "\<dots> = Some xs"
    by (simp add: json_run_elements Cons)
  finally show ?thesis .
qed

lemma JSON_stringify_nonempty: "JSON_stringify xs \<noteq> []"
  by (simp add: JSON_stringify_def)

section \<open>The store under update, delete and insert\<close>

lemma foldl_set_column_keeps [simp]:
  "col_id (foldl set_column r fs) = col_id r"
  "content_hash (foldl set_column r fs) = content_hash r"
  "col_timestamp (foldl set_column r fs) = col_timestamp r"
  by (induction fs arbitrary: r; simp add: set_column_def split: prod.splits)+

lemma update_keeps_ids [simp]: "map col_id (fst (update d i u)) = map col_id d"
  by (simp add: update_def Let_def comp_def)

lemma camelToSnake_keys [simp]:
  "camelToSnake ''isPinned'' = ''is_pinned''"
  "camelToSnake ''isDeleted'' = ''is_deleted''"
  "camelToSnake ''timestamp'' = ''timestamp''"
  by code_simp+

lemma update_timestamp_dropped: "update d i [(''timestamp'', v)] = (d, False)"
  by (simp add: update_def update_fields_def allowedFields_def)

lemma update_isDeleted:
  "update d i [(''isDeleted'', JBool b)] =
     (map (\<lambda>r. if col_id r = i then r\<lparr>is_deleted := flag b\<rparr> else r) d, i \<in> col_id ` set d)"
  by (auto simp: update_def update_fields_def allowedFields_def bind_value_def set_column_def flag_def)

lemma update_isPinned:
  "update d i [(''isPinned'', JBool b)] =
     (map (\<lambda>r. if col_id r = i then r\<lparr>is_pinned := flag b\<rparr> else r) d, i \<in> col_id ` set d)"
  by (auto simp: update_def update_fields_def allowedFields_def bind_value_def set_column_def flag_def)

lemma unique_live_hashes_map:
  assumes "\<And>r. content_hash (g r) = content_hash r" and "\<And>r. live (g r) \<Longrightarrow> live r"
    and "unique_live_hashes d"
  shows "unique_live_hashes (map g d)"
  using assms(3)
proof (induction d)
  case Nil
  then show ?case by (simp add: unique_live_hashes_def)
next
  case (Cons r d)
  have sub: "content_hash ` {x \<in> set (map g d). live x} \<subseteq> content_hash ` {x \<in> set d. live x}"
    using assms(1,2) by (auto simp: image_iff)
  from Cons.prems have d: "unique_live_hashes d"
    by (auto simp: unique_live_hashes_def split: if_splits)
  have ih: "distinct (map content_hash (filter live (map g d)))"
    using Cons.IH [OF d] by (simp add: unique_live_hashes_def)
  show ?case
  proof (cases "live (g r)")
    case True
    then have "live r" by (rule assms(2))
    with Cons.prems have "content_hash r \<notin> content_hash ` {x \<in> set d. live x}"
      by (auto simp: unique_live_hashes_def)
    with sub have "content_hash (g r) \<notin> content_hash ` {x \<in> set (map g d). live x}"
      using assms(1) by auto
    with ih True show ?thesis by (auto simp: unique_live_hashes_def)
  next
    case False
    with ih show ?thesis by (simp add: unique_live_hashes_def)
  qed
qed

lemma unique_live_hashes_filter:
  "unique_live_hashes d \<Longrightarrow> unique_live_hashes (filter Q d)"
proof -
  assume "unique_live_hashes d"
  then have "distinct (map content_hash (filter Q (filter live d)))"
    unfolding unique_live_hashes_def by (rule distinct_map_filter)
  moreover have "filter Q (filter live d) = filter live (filter Q d)"
    by (simp add: conj_commute)
  ultimately show ?thesis by (simp add: unique_live_hashes_def)
qed

lemma ids_ok_filter: "ids_ok d \<Longrightarrow> ids_ok (filter Q d)"
  by (auto simp: ids_ok_def distinct_map_filter)

lemma delete_filter: "fst (delete d ids) = filter (\<lambda>r. col_id r \<notin> set ids) d"
  by (simp add: delete_def)

lemma ids_ok_update: "ids_ok d \<Longrightarrow> ids_ok (fst (update d i u))"
  by (simp add: ids_ok_def)

lemma unique_live_hashes_pin:
  "unique_live_hashes d \<Longrightarrow> unique_live_hashes (fst (update d i [(''isPinned'', JBool b)]))"
  by (simp add: update_isPinned) (rule unique_live_hashes_map; simp add: live_def split: if_splits)

lemma unique_live_hashes_trash:
  "unique_live_hashes d \<Longrightarrow> unique_live_hashes (fst (update d i [(''isDeleted'', JBool True)]))"
  by (simp add: update_isDeleted) (rule unique_live_hashes_map; simp add: live_def flag_def split: if_splits)

lemma set_deleted_all_ids_ok:
  "ids_ok d \<Longrightarrow> ids_ok (fst (set_deleted_all b d ids))"
proof (induction ids arbitrary: d)
  case Nil then show ?case by simp
next
  case (Cons i ids)
  obtain d1 s where u: "update d i [(''isDeleted'', JBool b)] = (d1, s)" by force
  obtain d2 n where r: "set_deleted_all b d1 ids = (d2, n)" by force
  have "ids_ok d1"
    using ids_ok_update [OF Cons.prems, of i "[(''isDeleted'', JBool b)]"] u by simp
  from Cons.IH [OF this] show ?case
    by (simp add: u r)
qed

lemma set_deleted_all_True_unique:
  "unique_live_hashes d \<Longrightarrow> unique_live_hashes (fst (set_deleted_all True d ids))"
proof (induction ids arbitrary: d)
  case Nil then show ?case by simp
next
  case (Cons i ids)
  obtain d1 s where u: "update d i [(''isDeleted'', JBool True)] = (d1, s)" by force
  obtain d2 n where r: "set_deleted_all True d1 ids = (d2, n)" by force
  have "unique_live_hashes d1"
    using unique_live_hashes_trash [OF Cons.prems, of i] u by simp
  from Cons.IH [OF this] show ?case
    by (simp add: u r)
qed

lemma existsByHash_None:
  "existsByHash d h = None \<longleftrightarrow> (\<forall>r \<in> set d. content_hash r = h \<longrightarrow> \<not> live r)"
proof -
  have "existsByHash d h = None \<longleftrightarrow> filter (\<lambda>r. content_hash r = h \<and> is_deleted r = SInt 0) d = []"
    by (simp add: existsByHash_def split: list.splits)
  also have "\<dots> \<longleftrightarrow> (\<forall>r \<in> set d. content_hash r = h \<longrightarrow> \<not> live r)"
    by (auto simp: filter_empty_conv live_def)
  finally show ?thesis .
qed

lemma existsByHash_Some:
  "existsByHash d h = Some i \<Longrightarrow> \<exists>r \<in> set d. col_id r = i \<and> content_hash r = h \<and> live r"
proof -
  assume a: "existsByHash d h = Some i"
  then obtain r rs where f: "filter (\<lambda>r. content_hash r = h \<and> is_deleted r = SInt 0) d = r # rs" and i: "col_id r = i"
    by (auto simp: existsByHash_def split: list.splits)
  have "r \<in> set (filter (\<lambda>r. content_hash r = h \<and> is_deleted r = SInt 0) d)"
    by (simp add: f)
  then show ?thesis using i by (auto simp: live_def)
qed

lemma enforceMaxItems_cases:
  "enforceMaxItems m d = Inr d' \<Longrightarrow> d' = d \<or> (\<exists>ids. d' = fst (delete d ids))"
  by (auto simp: enforceMaxItems_def Let_def split: if_splits sum.splits)

lemma enforceRetention_cases:
  "enforceRetention now days d = Inr d' \<Longrightarrow> d' = d \<or> (\<exists>ids. d' = fst (delete d ids))"
  by (auto simp: enforceRetention_def Let_def split: if_splits sum.splits)

lemma unchanged_or_deleted_filter:
  "d' = d \<or> (\<exists>ids. d' = fst (delete d ids)) \<Longrightarrow> \<exists>ids. d' = filter (\<lambda>r. col_id r \<notin> set ids) d"
proof (erule disjE)
  assume "d' = d"
  then have "d' = filter (\<lambda>r. col_id r \<notin> set []) d" by simp
  then show ?thesis by blast
next
  assume "\<exists>ids. d' = fst (delete d ids)"
  then show ?thesis by (auto simp: delete_filter)
qed

lemma enforceMaxItems_filter:
  "enforceMaxItems m d = Inr d' \<Longrightarrow> \<exists>ids. d' = filter (\<lambda>r. col_id r \<notin> set ids) d"
  by (rule unchanged_or_deleted_filter) (rule enforceMaxItems_cases)

lemma enforceRetention_filter:
  "enforceRetention now days d = Inr d' \<Longrightarrow> \<exists>ids. d' = filter (\<lambda>r. col_id r \<notin> set ids) d"
  by (rule unchanged_or_deleted_filter) (rule enforceRetention_cases)

lemma enforceStorageLimits_filter:
  "\<exists>Q. db (enforceStorageLimits now hm) = filter Q (db hm)"
proof (cases "enforceMaxItems (maxItems hm) (db hm)")
  case (Inl e)
  have "\<exists>Q. db hm = filter Q (db hm)" by (rule exI [of _ "\<lambda>r. True"]) simp
  with Inl show ?thesis by (simp add: enforceStorageLimits_def)
next
  case (Inr d1)
  then obtain ids1 where d1: "d1 = filter (\<lambda>r. col_id r \<notin> set ids1) (db hm)"
    using enforceMaxItems_filter by blast
  show ?thesis
  proof (cases "enforceRetention now (retentionDays hm) d1")
    case (Inl e)
    with Inr d1 show ?thesis by (auto simp: enforceStorageLimits_def)
  next
    case r: (Inr d2)
    then obtain ids2 where d2: "d2 = filter (\<lambda>r. col_id r \<notin> set ids2) d1"
      using enforceRetention_filter by blast
    have "d2 = filter (\<lambda>r. col_id r \<notin> set ids1 \<and> col_id r \<notin> set ids2) (db hm)"
      by (simp add: d1 d2)
    with Inr r show ?thesis by (auto simp: enforceStorageLimits_def)
  qed
qed

lemma enforceStorageLimits_settings [simp]:
  "maxItems (enforceStorageLimits now hm) = maxItems hm"
  "retentionDays (enforceStorageLimits now hm) = retentionDays hm"
  by (simp_all add: enforceStorageLimits_def split: sum.splits)

lemma store_inv_filter: "store_inv d \<Longrightarrow> store_inv (filter Q d)"
  by (simp add: store_inv_def ids_ok_filter unique_live_hashes_filter)

lemma store_inv_enforce:
  "store_inv (db hm) \<Longrightarrow> store_inv (db (enforceStorageLimits now hm))"
  using enforceStorageLimits_filter [of now hm] store_inv_filter by auto

lemma row_of_item_toDatabase [simp]:
  "col_id (row_of_item (toDatabase item)) = itemId item"
  "content_hash (row_of_item (toDatabase item)) = contentHash item"
  "col_timestamp (row_of_item (toDatabase item)) = timestamp item"
  "is_deleted (row_of_item (toDatabase item)) = flag (isDeleted item)"
  "is_pinned (row_of_item (toDatabase item)) = flag (isPinned item)"
  by (simp_all add: row_of_item_def toDatabase_def flag_def)

lemma store_inv_insert:
  assumes "store_inv d" and "itemId item \<noteq> []" and "existsByHash d (contentHash item) = None"
    and "insert_item d (toDatabase item) = Inr (d', s)"
  shows "store_inv d'"
proof -
  let ?row = "row_of_item (toDatabase item)"
  from assms(4) have d': "d' = d @ [?row]" and fresh: "itemId item \<notin> col_id ` set d"
    by (auto simp: insert_item_def toDatabase_def split: if_splits)
  from assms(3) have "contentHash item \<notin> content_hash ` {r \<in> set d. live r}"
    by (auto simp: existsByHash_None)
  then have "distinct (map content_hash (filter live (d @ [?row])))"
    using assms(1) by (auto simp: store_inv_def unique_live_hashes_def)
  moreover have "ids_ok (d @ [?row])"
    using assms(1,2) fresh by (auto simp: store_inv_def ids_ok_def)
  ultimately show ?thesis by (simp add: d' store_inv_def unique_live_hashes_def)
qed

lemma store_inv_addItem:
  assumes "store_inv (db hm)" and "itemId item \<noteq> []"
    and "addItem now hm item = Inr (hm', r)"
  shows "store_inv (db hm')"
proof (cases "existsByHash (db hm) (contentHash item)")
  case None
  with assms(3) obtain d s where ins: "insert_item (db hm) (toDatabase item) = Inr (d, s)"
    and hm': "hm' = (if s then enforceStorageLimits now (hm\<lparr>db := d\<rparr>) else hm\<lparr>db := d\<rparr>)"
    by (auto simp: addItem_def Let_def split: sum.splits if_splits)
  have "store_inv d" using store_inv_insert [OF assms(1,2) None ins] .
  then show ?thesis
    using store_inv_enforce [of "hm\<lparr>db := d\<rparr>" now] by (simp add: hm')
next
  case (Some ex)
  then obtain r where "r \<in> set (db hm)" "col_id r = ex"
    using existsByHash_Some by blast
  with assms(1) have "ex \<noteq> []" by (force simp: store_inv_def ids_ok_def)
  with Some assms(3) have "hm' = hm"
    by (simp add: addItem_def Let_def update_timestamp_dropped)
  with assms(1) show ?thesis by simp
qed

lemma store_inv_step:
  assumes "store_inv (db hm)" and "\<not> is_restore op" and "item_ok op"
  shows "store_inv (db (run hm op))"
proof (cases op)
  case (AddItem now item)
  with assms show ?thesis
    by (auto split: sum.splits dest: store_inv_addItem)
next
  case (PinItem i)
  with assms(1) show ?thesis
    by (simp add: pinItem_def store_inv_def ids_ok_update unique_live_hashes_pin split: prod.splits)
       (metis fst_conv ids_ok_update unique_live_hashes_pin)
next
  case (UnpinItem i)
  with assms(1) show ?thesis
    by (simp add: unpinItem_def store_inv_def split: prod.splits)
       (metis fst_conv ids_ok_update unique_live_hashes_pin)
next
  case (TogglePin now uuid i)
  have a: "store_inv (db (fst (pinItem hm i)))"
    using assms(1) by (simp add: pinItem_def store_inv_def split: prod.splits)
       (metis fst_conv ids_ok_update unique_live_hashes_pin)
  have b: "store_inv (db (fst (unpinItem hm i)))"
    using assms(1) by (simp add: unpinItem_def store_inv_def split: prod.splits)
       (metis fst_conv ids_ok_update unique_live_hashes_pin)
  from TogglePin assms(1) a b show ?thesis
    by (auto simp: togglePin_def split: sum.splits option.splits if_splits)
next
  case (MoveToTrash ids)
  with assms(1) show ?thesis
    by (simp add: moveToTrash_def store_inv_def split: prod.splits)
       (metis fst_conv set_deleted_all_ids_ok set_deleted_all_True_unique)
next
  case (RestoreFromTrash ids)
  with assms(2) show ?thesis by simp
next
  case (DeleteItems ids)
  with assms(1) show ?thesis
    using store_inv_filter [of "db hm" "\<lambda>r. col_id r \<notin> set ids"]
    by (simp add: deleteItems_def delete_def)
next
  case EmptyTrash
  with assms(1) show ?thesis
    using store_inv_filter [of "db hm"]
    by (auto simp: emptyTrash_def delete_def Let_def split: sum.splits if_splits)
next
  case ClearAllHistory
  with assms(1) show ?thesis
    using store_inv_filter [of "db hm"]
    by (auto simp: clearAllHistory_def delete_def Let_def split: sum.splits if_splits)
next
  case (EnforceStorageLimits now)
  with assms(1) show ?thesis by (simp add: store_inv_enforce)
next
  case (UpdatePreferences now m r)
  with assms(1) show ?thesis
    using store_inv_enforce [of "hm\<lparr> maxItems := (case m of None \<Rightarrow> maxItems hm | Some m \<Rightarrow> m),
            retentionDays := (case r of None \<Rightarrow> retentionDays hm | Some r \<Rightarrow> r) \<rparr>" now]
    by (simp add: updatePreferences_def)
qed

lemma store_inv_run_all:
  "store_inv (db hm) \<Longrightarrow> \<forall>op \<in> set ops. \<not> is_restore op \<and> item_ok op \<Longrightarrow>
   store_inv (db (foldl run hm ops))"
  by (induction ops arbitrary: hm) (simp_all add: store_inv_step)







section \<open>Adding content that is already in the history\<close>

text \<open>
  C1. When the hash of the new item equals the hash of a live row, \<^verbatim>\<open>addItem\<close>
  inserts nothing and returns the id of that row. It then calls
  \<^verbatim>\<open>update(existingId, {timestamp: item.timestamp})\<close>, but \<^verbatim>\<open>timestamp\<close> is
  not in \<^verbatim>\<open>allowedFields\<close>, so the call changes nothing: here ``Hello'' is
  captured at time 1000 (item a) and again at time 2000 (item b); afterwards the one row
  is a, and its timestamp is still 1000, not 2000.
\<close>

theorem addItem_recopy_keeps_old_timestamp:
  "(case addItem 5000 (new_HistoryManager []) (text_item ''a'' 1000 ''h1'' ''Hello'') of
      Inl e \<Rightarrow> False
    | Inr (hm1, r1) \<Rightarrow>
        (case addItem 6000 hm1 (text_item ''b'' 2000 ''h1'' ''Hello'') of
           Inl e \<Rightarrow> False
         | Inr (hm2, r2) \<Rightarrow>
             r1 = Some ''a'' \<and> r2 = Some ''a'' \<and> map col_id (db hm2) = [''a''] \<and>
             map col_timestamp (db hm2) = [1000] \<and> timestamp (text_item ''b'' 2000 ''h1'' ''Hello'') = 2000))"
  by (simp add: new_HistoryManager_def text_item_def new_ClipboardItem_def
      addItem_def existsByHash_def insert_item_def toDatabase_def row_of_item_def
      enforceStorageLimits_def enforceMaxItems_def enforceRetention_def count_def matches_def flag_def
      query_def select_rows_def limit_offset_def order_by_timestamp_def rowToItem_def
      parse_file_paths_def update_timestamp_dropped sql_text_def sql_blob_def or_null_def Let_def)

section \<open>The whitelist of update\<close>




section \<open>At most one live row per content hash\<close>

text \<open>
  C5, as stated, fails for \<^verbatim>\<open>restoreFromTrash\<close>: ``Hello'' is captured (a), moved to
  the trash, captured again (b, inserted because \<^verbatim>\<open>existsByHash\<close> skips deleted rows)
  and a is restored. Both rows are then live and carry the same hash.
\<close>

theorem restore_breaks_unique_live_hash:
  "map col_id (db (foldl run (new_HistoryManager []) recapture_then_restore)) = [''a'', ''b''] \<and>
   map content_hash (db (foldl run (new_HistoryManager []) recapture_then_restore)) = [''h1'', ''h1''] \<and>
   map is_deleted (db (foldl run (new_HistoryManager []) recapture_then_restore)) = [SInt 0, SInt 0] \<and>
   \<not> unique_live_hashes (db (foldl run (new_HistoryManager []) recapture_then_restore))"
  by (simp add: recapture_then_restore_def new_HistoryManager_def text_item_def new_ClipboardItem_def
      addItem_def existsByHash_def insert_item_def toDatabase_def row_of_item_def
      enforceStorageLimits_def enforceMaxItems_def enforceRetention_def count_def matches_def flag_def
      query_def select_rows_def limit_offset_def order_by_timestamp_def rowToItem_def
      parse_file_paths_def moveToTrash_def restoreFromTrash_def update_isDeleted
      unique_live_hashes_def live_def sql_text_def sql_blob_def or_null_def Let_def)

text \<open>
  C5, amended. In a store whose ids are pairwise different and not empty and in which
  at most one live row exists per content hash, both properties hold again after every
  sequence of the operations addItem (of an item with a non-empty id, as the constructor
  gives every item), pinItem, unpinItem, togglePin, moveToTrash, deleteItems, emptyTrash,
  clearAllHistory, enforceStorageLimits and updatePreferences, whether they return or
  throw; restoreFromTrash is not among them. \<^verbatim>\<open>existsByHash\<close> looks at live rows
  only: a hash that only deleted rows carry is not found.
\<close>

theorem unique_live_hash_preserved:
  "(store_inv (db hm) \<and> (\<forall>op \<in> set ops. \<not> is_restore op \<and> item_ok op)
      \<longrightarrow> store_inv (db (foldl run hm ops)))
   \<and> ((\<forall>r \<in> set d. content_hash r = h \<longrightarrow> \<not> live r) \<longrightarrow> existsByHash d h = None)"
  using store_inv_run_all [of hm ops] existsByHash_None [of d h] by blast

theorem unique_live_hash_preserved_witness:
  "store_inv (db (new_HistoryManager [])) \<and>
   list_all (\<lambda>op. \<not> is_restore op \<and> item_ok op) session_without_restore \<and>
   store_inv (db (foldl run (new_HistoryManager []) session_without_restore)) \<and>
   \<not> live (blob_row\<lparr>is_deleted := SInt 1\<rparr>) \<and>
   existsByHash [blob_row\<lparr>is_deleted := SInt 1\<rparr>] ''h9'' = None"
proof -
  have h1: "store_inv (db (new_HistoryManager []))"
    by (simp add: new_HistoryManager_def store_inv_def ids_ok_def unique_live_hashes_def)
  have h2: "\<forall>op \<in> set session_without_restore. \<not> is_restore op \<and> item_ok op"
    by (simp add: session_without_restore_def text_item_def new_ClipboardItem_def)
  have h3: "\<forall>r \<in> set [blob_row\<lparr>is_deleted := SInt 1\<rparr>]. content_hash r = ''h9'' \<longrightarrow> \<not> live r"
    by (simp add: live_def)
  have h4: "list_all (\<lambda>op. \<not> is_restore op \<and> item_ok op) session_without_restore"
    using h2 by (simp add: list_all_iff)
  have h5: "\<not> live (blob_row\<lparr>is_deleted := SInt 1\<rparr>)"
    by (simp add: live_def)
  from unique_live_hash_preserved [of "new_HistoryManager []" session_without_restore
      "[blob_row\<lparr>is_deleted := SInt 1\<rparr>]" "''h9''"] h1 h2 h3
  have "store_inv (db (foldl run (new_HistoryManager []) session_without_restore)) \<and>
        existsByHash [blob_row\<lparr>is_deleted := SInt 1\<rparr>] ''h9'' = None"
    by blast
  with h1 h4 h5 show ?thesis by blast
qed

section \<open>Storage limits\<close>

lemma matches_np_live [simp]: "matches (Some False) (Some False) = np_live"
  by (auto simp: matches_def np_live_def flag_def fun_eq_iff)

lemma matches_live [simp]: "matches None (Some False) = live"
  by (auto simp: matches_def live_def flag_def fun_eq_iff)































lemma stored_text_fields [simp]:
  "col_id (stored_text i ts pinned h txt) = i"
  "col_timestamp (stored_text i ts pinned h txt) = (if ts = 0 then ts else ts)"
  "is_pinned (stored_text i ts pinned h txt) = flag pinned"
  "is_deleted (stored_text i ts pinned h txt) = SInt 0"
  "rowToItem (stored_text i ts pinned h txt) \<noteq> None"
  by (simp_all add: stored_text_def text_item_def new_ClipboardItem_def toDatabase_def row_of_item_def
      rowToItem_def parse_file_paths_def)

lemma live_stored_text [simp]: "live (stored_text i ts pinned h txt)"
  by (simp add: live_def)

lemma stored_text_readable [simp]: "\<exists>y. rowToItem (stored_text i ts pinned h txt) = Some y"
  by (simp add: stored_text_def text_item_def new_ClipboardItem_def toDatabase_def row_of_item_def
      rowToItem_def parse_file_paths_def)









section \<open>Serialising an item and reading it back\<close>

lemma length_hex32 [simp]: "length (hex32 w) = 8"
  by (simp add: hex32_def)

lemma length_state_hex: "length (state_hex s) = 64"
  by (cases s rule: state_hex.cases) simp

lemma length_sha256_hex [simp]: "length (sha256_hex s) = 64"
  by (simp add: sha256_hex_def length_state_hex)

lemma sha256_hex_nonempty [simp]: "sha256_hex s \<noteq> []"
  using length_sha256_hex [of s] by (cases "sha256_hex s") simp_all

lemma generateContentHash_nonempty [simp]: "generateContentHash this \<noteq> []"
  by (simp add: generateContentHash_def)

lemma new_ClipboardItem_wf:
  "uuid \<noteq> [] \<Longrightarrow> now \<noteq> 0 \<Longrightarrow> item_wf (new_ClipboardItem now uuid a)"
  by (simp add: item_wf_def new_ClipboardItem_def Let_def split: option.splits)

lemma fromDatabase_toDatabase:
  "item_wf item \<Longrightarrow> fromDatabase now uuid (toDatabase item) = Inr item"
  by (cases item)
     (simp add: item_wf_def fromDatabase_def toDatabase_def new_ClipboardItem_def
        JSON_parse_stringify JSON_stringify_nonempty Let_def split: option.splits)

text \<open>
  C9. For every item with a non-empty id, a timestamp other than 0 and a non-empty hash,
  \<^verbatim>\<open>ClipboardItem.fromDatabase(item.toDatabase())\<close> returns an item equal to the
  given one in every field: id, type, timestamp, flags, hash, texts, image data and
  thumbnail, image and thumbnail paths, file paths, color value, source application,
  size, count, file types, isAllImages and thumbnails. Every item the constructor builds
  (with a non-empty uuid at a time other than 0) is such an item, whatever its type.
\<close>

theorem fromDatabase_toDatabase_roundtrip:
  "(item_wf item \<longrightarrow> fromDatabase now' uuid' (toDatabase item) = Inr item)
   \<and> (uuid \<noteq> [] \<and> now \<noteq> 0 \<longrightarrow>
        item_wf (new_ClipboardItem now uuid a) \<and>
        fromDatabase now' uuid' (toDatabase (new_ClipboardItem now uuid a)) =
          Inr (new_ClipboardItem now uuid a))"
  using fromDatabase_toDatabase [of item now' uuid']
    fromDatabase_toDatabase [of "new_ClipboardItem now uuid a" now' uuid']
    new_ClipboardItem_wf [of uuid now a]
  by blast

text \<open>Witness: the round trip of two copied files.\<close>

theorem fromDatabase_toDatabase_roundtrip_witness:
  "item_wf copied_files \<and>
   filePaths copied_files = Some [''/Users/me/a b.png'', ''/tmp/notes.txt''] \<and>
   fileTypes copied_files = Some [''png'', ''txt''] \<and>
   db_fileTypes (toDatabase copied_files) = Some (JSON_stringify [''png'', ''txt'']) \<and>
   fromDatabase 1700000009999 ''ffff'' (toDatabase copied_files) = Inr copied_files"
proof -
  have h: "item_wf copied_files"
    by (simp add: item_wf_def copied_files_def new_ClipboardItem_def no_args_def Let_def)
  have f: "filePaths copied_files = Some [''/Users/me/a b.png'', ''/tmp/notes.txt'']"
     "fileTypes copied_files = Some [''png'', ''txt'']"
    by (simp_all add: copied_files_def new_ClipboardItem_def no_args_def Let_def)
  have s: "db_fileTypes (toDatabase copied_files) = Some (JSON_stringify [''png'', ''txt''])"
    by (simp add: toDatabase_def f)
  from fromDatabase_toDatabase_roundtrip [of copied_files 1700000009999 "''ffff''"] h
  have "fromDatabase 1700000009999 ''ffff'' (toDatabase copied_files) = Inr copied_files"
    by blast
  with h f s show ?thesis by blast
qed

section \<open>The content hash\<close>













lemma constructor_default_hash:
  "a_contentHash a = None \<Longrightarrow> contentHash (new_ClipboardItem now uuid a) = sha256_hex []"
  by (simp add: new_ClipboardItem_def generateContentHash_def or_empty_def Let_def)










end
